theory Spec2Isabelle
  imports Main "HOL-Library.Sublist"
begin

section \<open>Python strings\<close>

text \<open>
  A Python \<open>str\<close> is a sequence of Unicode code points, so the model is a list of
  code points. Substring tests, \<open>strip\<close> and \<open>join\<close> are the built-ins the sources
  call; they are written out here as list functions.
\<close>

type_synonym str = "nat list"

definition ascii :: "string \<Rightarrow> str" where
  \<comment> \<open>an ASCII literal of the source, character by character\<close>
  "ascii s = map of_char s"

fun str_in :: "str \<Rightarrow> str \<Rightarrow> bool" where
  \<comment> \<open>Python's \<open>t in s\<close> on strings: \<open>t\<close> occurs in \<open>s\<close> as a contiguous block\<close>
  "str_in t [] = (t = [])"
| "str_in t (c # s) = (prefix t (c # s) \<or> str_in t s)"

definition any_in :: "str list \<Rightarrow> str \<Rightarrow> bool" where
  \<comment> \<open>\<open>any(word in s for word in words)\<close>\<close>
  "any_in words s = list_ex (\<lambda>word. str_in word s) words"

definition isspace :: "nat \<Rightarrow> bool" where
  \<comment> \<open>the code points \<open>str.isspace\<close> accepts, which are the ones \<open>str.strip()\<close> removes\<close>
  "isspace c \<longleftrightarrow>
     (0x09 \<le> c \<and> c \<le> 0x0D) \<or> (0x1C \<le> c \<and> c \<le> 0x20) \<or> c = 0x85 \<or> c = 0xA0 \<or>
     c = 0x1680 \<or> (0x2000 \<le> c \<and> c \<le> 0x200A) \<or> c = 0x2028 \<or> c = 0x2029 \<or>
     c = 0x202F \<or> c = 0x205F \<or> c = 0x3000"

definition lstrip :: "str \<Rightarrow> str" where
  "lstrip s = dropWhile isspace s"

definition rstrip :: "str \<Rightarrow> str" where
  "rstrip s = rev (dropWhile isspace (rev s))"

definition strip :: "str \<Rightarrow> str" where
  \<comment> \<open>\<open>s.strip()\<close>: leading and trailing whitespace removed\<close>
  "strip s = lstrip (rstrip s)"



text \<open>
  \<open>str.lower\<close> is driven by the Unicode case tables of the interpreter, which are not
  part of the repository. Every function below that calls \<open>.lower()\<close> therefore takes
  the lowercasing function as its first argument \<open>lower\<close>, and the theorems hold
  for whatever function is supplied. \<open>lower_ascii\<close> is \<open>str.lower\<close> on the strings
  whose cased characters are all ASCII letters; it instantiates \<open>lower\<close> on concrete
  inputs.
\<close>

definition lower_ascii :: "str \<Rightarrow> str" where
  "lower_ascii s = map (\<lambda>c. if 0x41 \<le> c \<and> c \<le> 0x5A then c + 0x20 else c) s"

section \<open>The Chinese words of the keyword tables\<close>

definition zh_zhizao :: str where \<comment> \<open>U+5236 U+9020: manufacturing\<close>
  "zh_zhizao = [0x5236, 0x9020]"

definition zh_shengchan :: str where \<comment> \<open>U+751F U+4EA7: production\<close>
  "zh_shengchan = [0x751F, 0x4EA7]"

definition zh_lingshou :: str where \<comment> \<open>U+96F6 U+552E: retail\<close>
  "zh_lingshou = [0x96F6, 0x552E]"

definition zh_xiaoshou :: str where \<comment> \<open>U+9500 U+552E: sales\<close>
  "zh_xiaoshou = [0x9500, 0x552E]"

definition zh_jianzhu :: str where \<comment> \<open>U+5EFA U+7B51: construction\<close>
  "zh_jianzhu = [0x5EFA, 0x7B51]"

definition zh_gongcheng :: str where \<comment> \<open>U+5DE5 U+7A0B: engineering\<close>
  "zh_gongcheng = [0x5DE5, 0x7A0B]"

definition zh_yiliao :: str where \<comment> \<open>U+533B U+7597: medical care\<close>
  "zh_yiliao = [0x533B, 0x7597]"

definition zh_jiaoyu :: str where \<comment> \<open>U+6559 U+80B2: education\<close>
  "zh_jiaoyu = [0x6559, 0x80B2]"

definition zh_jinrong :: str where \<comment> \<open>U+91D1 U+878D: finance\<close>
  "zh_jinrong = [0x91D1, 0x878D]"

definition zh_fenlei_youhua :: str where \<comment> \<open>U+5206 U+7C7B U+4F18 U+5316: classification optimisation\<close>
  "zh_fenlei_youhua = [0x5206, 0x7C7B, 0x4F18, 0x5316]"

definition zh_gongyingshang_xiezuo :: str where \<comment> \<open>U+4F9B U+5E94 U+5546 U+534F U+4F5C: supplier collaboration\<close>
  "zh_gongyingshang_xiezuo = [0x4F9B, 0x5E94, 0x5546, 0x534F, 0x4F5C]"

definition zh_wuliao_jihua :: str where \<comment> \<open>U+7269 U+6599 U+8BA1 U+5212: material planning\<close>
  "zh_wuliao_jihua = [0x7269, 0x6599, 0x8BA1, 0x5212]"

definition zh_weihu_weixiu :: str where \<comment> \<open>U+7EF4 U+62A4 U+7EF4 U+4FEE: maintenance and repair\<close>
  "zh_weihu_weixiu = [0x7EF4, 0x62A4, 0x7EF4, 0x4FEE]"

definition zh_chengben_kongzhi :: str where \<comment> \<open>U+6210 U+672C U+63A7 U+5236: cost control\<close>
  "zh_chengben_kongzhi = [0x6210, 0x672C, 0x63A7, 0x5236]"

definition zh_fenlei :: str where \<comment> \<open>U+5206 U+7C7B: classify\<close>
  "zh_fenlei = [0x5206, 0x7C7B]"

definition zh_zuhe :: str where \<comment> \<open>U+7EC4 U+5408: portfolio\<close>
  "zh_zuhe = [0x7EC4, 0x5408]"

definition zh_hezuo :: str where \<comment> \<open>U+5408 U+4F5C: cooperate\<close>
  "zh_hezuo = [0x5408, 0x4F5C]"

definition zh_lianhe :: str where \<comment> \<open>U+8054 U+5408: joint\<close>
  "zh_lianhe = [0x8054, 0x5408]"

definition zh_xiezuo :: str where \<comment> \<open>U+534F U+4F5C: collaborate\<close>
  "zh_xiezuo = [0x534F, 0x4F5C]"

definition zh_gongyingshang :: str where \<comment> \<open>U+4F9B U+5E94 U+5546: supplier\<close>
  "zh_gongyingshang = [0x4F9B, 0x5E94, 0x5546]"

definition zh_wuliao :: str where \<comment> \<open>U+7269 U+6599: material\<close>
  "zh_wuliao = [0x7269, 0x6599]"

definition zh_jihua :: str where \<comment> \<open>U+8BA1 U+5212: plan\<close>
  "zh_jihua = [0x8BA1, 0x5212]"

definition zh_shengchan_paiqi :: str where \<comment> \<open>U+751F U+4EA7 U+6392 U+671F: production scheduling\<close>
  "zh_shengchan_paiqi = [0x751F, 0x4EA7, 0x6392, 0x671F]"

definition zh_weihu :: str where \<comment> \<open>U+7EF4 U+62A4: maintain\<close>
  "zh_weihu = [0x7EF4, 0x62A4]"

definition zh_weixiu :: str where \<comment> \<open>U+7EF4 U+4FEE: repair\<close>
  "zh_weixiu = [0x7EF4, 0x4FEE]"

definition zh_jianjie_wuliao :: str where \<comment> \<open>U+95F4 U+63A5 U+7269 U+6599: indirect material\<close>
  "zh_jianjie_wuliao = [0x95F4, 0x63A5, 0x7269, 0x6599]"

definition zh_chengben :: str where \<comment> \<open>U+6210 U+672C: cost\<close>
  "zh_chengben = [0x6210, 0x672C]"

definition zh_jieyue :: str where \<comment> \<open>U+8282 U+7EA6: save\<close>
  "zh_jieyue = [0x8282, 0x7EA6]"

definition zh_jiangdi :: str where \<comment> \<open>U+964D U+4F4E: reduce\<close>
  "zh_jiangdi = [0x964D, 0x4F4E]"

definition zh_fuwu :: str where \<comment> \<open>U+670D U+52A1: service\<close>
  "zh_fuwu = [0x670D, 0x52A1]"

definition zh_kucun :: str where \<comment> \<open>U+5E93 U+5B58: inventory\<close>
  "zh_kucun = [0x5E93, 0x5B58]"

definition zh_kucun_guanli :: str where \<comment> \<open>U+5E93 U+5B58 U+7BA1 U+7406: inventory management\<close>
  "zh_kucun_guanli = [0x5E93, 0x5B58, 0x7BA1, 0x7406]"

definition zh_cailiao :: str where \<comment> \<open>U+6750 U+6599: materials\<close>
  "zh_cailiao = [0x6750, 0x6599]"

definition zh_gongyingshang_guanli :: str where \<comment> \<open>U+4F9B U+5E94 U+5546 U+7BA1 U+7406: supplier management\<close>
  "zh_gongyingshang_guanli = [0x4F9B, 0x5E94, 0x5546, 0x7BA1, 0x7406]"

definition zh_lianhe_kucun :: str where \<comment> \<open>U+8054 U+5408 U+5E93 U+5B58: joint inventory\<close>
  "zh_lianhe_kucun = [0x8054, 0x5408, 0x5E93, 0x5B58]"

definition zh_weihu_yongpin :: str where \<comment> \<open>U+7EF4 U+62A4 U+7528 U+54C1: maintenance supplies\<close>
  "zh_weihu_yongpin = [0x7EF4, 0x62A4, 0x7528, 0x54C1]"
section \<open>The keyword classifier\<close>

text \<open>
  \<open>extract_keywords\<close> is the same text in \<open>intergration.py\<close> (lines 101-141) and in
  \<open>procurement_analysis_platform.py\<close> (lines 96-136). The two dictionaries are
  association lists in the order the source declares them, which is the order Python
  iterates a dict in.
\<close>

definition industry_keywords :: "(str \<times> str list) list" where
  "industry_keywords =
     [(zh_zhizao, [zh_zhizao, zh_shengchan, ascii ''manufacture'', ascii ''production'']),
      (zh_lingshou, [zh_lingshou, ascii ''retail'', ascii ''distribution'', zh_xiaoshou]),
      (zh_jianzhu, [zh_jianzhu, ascii ''construction'', ascii ''building'', zh_gongcheng]),
      (zh_yiliao, [zh_yiliao, ascii ''hospital'', ascii ''medical'']),
      (zh_jiaoyu, [zh_jiaoyu, ascii ''education'', ascii ''school'']),
      (zh_jinrong, [zh_jinrong, ascii ''finance'', ascii ''bank''])]"

definition objective_keywords :: "(str \<times> str list) list" where
  "objective_keywords =
     [(zh_fenlei_youhua, [zh_fenlei, zh_zuhe, ascii ''portfolio'', ascii ''categorize'']),
      (zh_gongyingshang_xiezuo,
         [zh_hezuo, zh_lianhe, zh_xiezuo, ascii ''collaboration'', zh_gongyingshang]),
      (zh_wuliao_jihua, [zh_wuliao, zh_jihua, ascii ''mrp'', zh_shengchan_paiqi]),
      (zh_weihu_weixiu, [zh_weihu, zh_weixiu, ascii ''mro'', zh_jianjie_wuliao]),
      (zh_chengben_kongzhi,
         [zh_chengben, zh_jieyue, zh_jiangdi, ascii ''control'', ascii ''reduce''])]"

fun first_match :: "(str \<times> str list) list \<Rightarrow> str \<Rightarrow> str" where
  \<comment> \<open>the \<open>for ... in keywords.items(): if any(...): label = ...; break\<close> loop,
      started with the label \<open>""\<close>\<close>
  "first_match [] text_lower = []"
| "first_match ((label, keywords) # rest) text_lower =
     (if any_in keywords text_lower then label else first_match rest text_lower)"

definition extract_keywords :: "(str \<Rightarrow> str) \<Rightarrow> str \<Rightarrow> str \<times> str" where
  "extract_keywords lower text =
     (if text = [] then ([], [])
      else
        let text_lower = lower text;
            industry = first_match industry_keywords text_lower;
            objective = first_match objective_keywords text_lower
        in (industry, objective))"

section \<open>The recommender of \<open>intergration.py\<close>\<close>

(* intergration.py line 184 *)
definition title_kraljic :: str where
  "title_kraljic =
     [0x5361, 0x62C9, 0x6770, 0x514B, 0x91C7, 0x8D2D, 0x7EC4, 0x5408, 0x6A21, 0x578B]"

definition desc_kraljic :: str where
  "desc_kraljic =
     [0x901A, 0x8FC7, 0x300C, 0x6218, 0x7565, 0x578B, 0x3001, 0x6760, 0x6746, 0x578B]
     @ [0x3001, 0x74F6, 0x9888, 0x578B, 0x3001, 0x5E38, 0x89C4, 0x578B, 0x300D, 0x5206]
     @ [0x7C7B, 0xFF0C, 0x4F18, 0x5316, 0x91C7, 0x8D2D, 0x8D44, 0x6E90, 0x4E0E, 0x4F9B]
     @ [0x5E94, 0x5546, 0x5173, 0x7CFB, 0xFF0C, 0x964D, 0x672C, 0x63D0, 0x6548, 0x3002]"

(* intergration.py line 189 *)
definition title_vmi :: str where
  "title_vmi =
     ascii ''VMI'' @ [0x8054, 0x5408, 0x4EF7, 0x503C, 0x521B, 0x9020, 0x6A21, 0x578B]"

definition desc_vmi :: str where
  "desc_vmi =
     [0x4F9B, 0x5E94, 0x5546, 0x6DF1, 0x5EA6, 0x53C2, 0x4E0E, 0x5E93, 0x5B58, 0x7BA1]
     @ [0x7406, 0xFF0C, 0x51CF, 0x5C11, 0x79EF, 0x538B] @ ascii ''/''
     @ [0x7F3A, 0x8D27, 0xFF0C, 0x9002, 0x5408, 0x957F, 0x671F, 0x6218, 0x7565, 0x5408]
     @ [0x4F5C, 0x573A, 0x666F, 0x3002]"

(* intergration.py line 194 *)
definition title_mrp :: str where
  "title_mrp =
     ascii ''MRP'' @ [0x7269, 0x6599, 0x9700, 0x6C42, 0x8BA1, 0x5212, 0x65B9, 0x6CD5, 0x8BBA]"

definition desc_mrp :: str where
  "desc_mrp =
     [0x57FA, 0x4E8E, 0x751F, 0x4EA7, 0x8BA1, 0x5212, 0x7CBE, 0x51C6, 0x8BA1, 0x7B97]
     @ [0x7269, 0x6599, 0x9700, 0x6C42, 0xFF0C, 0x51CF, 0x5C11, 0x5E93, 0x5B58, 0x6D6A]
     @ [0x8D39, 0xFF0C, 0x9002, 0x914D, 0x5236, 0x9020, 0x578B, 0x4F01, 0x4E1A, 0x6392]
     @ [0x4EA7, 0x3002]"

(* intergration.py line 199 *)
definition title_mro :: str where
  "title_mro =
     ascii ''MRO'' @ [0x5206, 0x7C7B, 0x91C7, 0x8D2D, 0x7BA1, 0x7406, 0x65B9, 0x6CD5, 0x8BBA]"

definition desc_mro :: str where
  "desc_mro =
     [0x805A, 0x7126, 0x975E, 0x751F, 0x4EA7, 0x7269, 0x6599, 0xFF08, 0x7EF4, 0x62A4]
     @ ascii ''/'' @ [0x7EF4, 0x4FEE] @ ascii ''/''
     @ [0x8FD0, 0x8425, 0xFF09, 0xFF0C, 0x5206, 0x7C7B, 0x7BA1, 0x63A7, 0x95F4, 0x63A5]
     @ [0x91C7, 0x8D2D, 0x6210, 0x672C, 0xFF0C, 0x4FDD, 0x969C, 0x4EA7, 0x7EBF, 0x7A33]
     @ [0x5B9A, 0x3002]"

(* intergration.py line 204 *)
definition title_tco :: str where
  "title_tco =
     ascii ''TCO'' @ [0x603B, 0x6210, 0x672C, 0x4F18, 0x5316, 0x65B9, 0x6CD5, 0x8BBA]"

definition desc_tco :: str where
  "desc_tco =
     [0x4ECE, 0x91C7, 0x8D2D, 0x3001, 0x4F7F, 0x7528, 0x5230, 0x5904, 0x7F6E, 0x7684]
     @ [0x5168, 0x751F, 0x547D, 0x5468, 0x671F, 0x6210, 0x672C, 0x5206, 0x6790, 0xFF0C]
     @ [0x8BC6, 0x522B, 0x9690, 0x6027, 0x8282, 0x7EA6, 0x7A7A, 0x95F4, 0xFF0C, 0x7CFB]
     @ [0x7EDF, 0x6027, 0x964D, 0x4F4E, 0x603B, 0x62E5, 0x6709, 0x6210, 0x672C, 0x3002]"

(* intergration.py line 209 *)
definition title_fallback :: str where
  "title_fallback =
     [0x91C7, 0x8D2D, 0x7B56, 0x7565, 0x7EFC, 0x5408, 0x8BC4, 0x4F30, 0x6CD5]"

definition desc_fallback :: str where
  "desc_fallback =
     [0x5EFA, 0x8BAE, 0x5148, 0x68B3, 0x7406, 0x91C7, 0x8D2D, 0x7269, 0x54C1, 0x5C5E]
     @ [0x6027, 0x3001, 0x4F9B, 0x5E94, 0x5546, 0x5173, 0x7CFB, 0x3001, 0x6210, 0x672C]
     @ [0x7ED3, 0x6784, 0xFF0C, 0x518D, 0x9002, 0x914D, 0x5177, 0x4F53, 0x65B9, 0x6CD5]
     @ [0x8BBA, 0x3002]"
definition get_procurement_advice :: "(str \<Rightarrow> str) \<Rightarrow> str \<Rightarrow> str \<Rightarrow> str \<times> str" where
  \<comment> \<open>\<open>intergration.py\<close> lines 145-211\<close>
  "get_procurement_advice lower industry objective =
     (let industry_lower = strip (lower industry);
          objective_lower = strip (lower objective);
          is_manufacturing = any_in [zh_zhizao, zh_shengchan, ascii ''manufacture''] industry_lower;
          is_retail = any_in [zh_lingshou, ascii ''retail'', ascii ''distribution''] industry_lower;
          is_construction =
            any_in [zh_jianzhu, ascii ''construction'', ascii ''building''] industry_lower;
          wants_portfolio =
            any_in [zh_fenlei, zh_zuhe, ascii ''portfolio'', ascii ''categorize''] objective_lower;
          wants_collaboration =
            any_in [zh_hezuo, zh_lianhe, zh_xiezuo, ascii ''collaboration''] objective_lower;
          wants_material_plan =
            any_in [zh_wuliao_jihua, ascii ''mrp'', zh_shengchan_paiqi] objective_lower;
          wants_maintenance =
            any_in [zh_weihu, zh_weixiu, ascii ''mro'', zh_jianjie_wuliao] objective_lower;
          wants_cost_reduction =
            any_in [zh_chengben, zh_jieyue, zh_jiangdi, ascii ''control'', ascii ''reduce'']
              objective_lower
      in
        if wants_portfolio then (title_kraljic, desc_kraljic)
        else if wants_collaboration then (title_vmi, desc_vmi)
        else if wants_material_plan \<and> is_manufacturing then (title_mrp, desc_mrp)
        else if wants_maintenance then (title_mro, desc_mro)
        else if wants_cost_reduction then (title_tco, desc_tco)
        else (title_fallback, desc_fallback))"

section \<open>The recommender of \<open>procurement_analysis_platform.py\<close>\<close>

text \<open>
  The titles and descriptions of this variant are the same literals as in
  \<open>intergration.py\<close>; each branch adds its flow chart, a fixed mermaid text.
\<close>

(* procurement_analysis_platform.py line 157, 505 code points *)
definition flow_kraljic :: str where
  "flow_kraljic =
     [0x000A] @ ascii ''        '' @ [0x0060, 0x0060, 0x0060] @ ascii ''mermaid'' @ [0x000A]
     @ ascii ''        graph TD'' @ [0x000A] @ ascii ''            A[''
     @ [0x786E, 0x5B9A, 0x91C7, 0x8D2D, 0x7269, 0x54C1, 0x6E05, 0x5355] @ ascii ''] --> B[''
     @ [0x5206, 0x6790, 0x7269, 0x54C1, 0x91CD, 0x8981, 0x6027] @ ascii ''<br/>(''
     @ [0x5BF9, 0x4E1A, 0x52A1, 0x5F71, 0x54CD] @ ascii '')]'' @ [0x000A]
     @ ascii ''            A --> C['' @ [0x5206, 0x6790, 0x4F9B, 0x5E94, 0x98CE, 0x9669]
     @ ascii ''<br/>('' @ [0x7A00, 0x7F3A, 0x6027] @ ascii ''/''
     @ [0x66FF, 0x4EE3, 0x96BE, 0x5EA6] @ ascii '')]'' @ [0x000A]
     @ ascii ''            B --> D'' @ [0x007B, 0x91CD, 0x8981, 0x6027, 0x9AD8]
     @ ascii ''?'' @ [0x007D, 0x000A] @ ascii ''            C --> E''
     @ [0x007B, 0x4F9B, 0x5E94, 0x98CE, 0x9669, 0x9AD8] @ ascii ''?'' @ [0x007D, 0x000A]
     @ ascii ''            D -->|'' @ [0x662F] @ ascii ''| F[''
     @ [0x6218, 0x7565, 0x578B, 0x7269, 0x54C1] @ ascii ''<br/>(''
     @ [0x4F8B, 0xFF1A, 0x6838, 0x5FC3, 0x96F6, 0x90E8, 0x4EF6] @ ascii '')]'' @ [0x000A]
     @ ascii ''            D -->|'' @ [0x5426] @ ascii ''| G[''
     @ [0x6760, 0x6746, 0x578B, 0x7269, 0x54C1] @ ascii ''<br/>(''
     @ [0x4F8B, 0xFF1A, 0x6807, 0x51C6, 0x5316, 0x539F, 0x6750, 0x6599] @ ascii '')]''
     @ [0x000A] @ ascii ''            E -->|'' @ [0x662F] @ ascii ''| H[''
     @ [0x74F6, 0x9888, 0x578B, 0x7269, 0x54C1] @ ascii ''<br/>(''
     @ [0x4F8B, 0xFF1A, 0x72EC, 0x5BB6, 0x914D, 0x4EF6] @ ascii '')]'' @ [0x000A]
     @ ascii ''            E -->|'' @ [0x5426] @ ascii ''| I[''
     @ [0x5E38, 0x89C4, 0x578B, 0x7269, 0x54C1] @ ascii ''<br/>(''
     @ [0x4F8B, 0xFF1A, 0x529E, 0x516C, 0x7528, 0x54C1] @ ascii '')]'' @ [0x000A]
     @ ascii ''            F --> J[''
     @ [0x5EFA, 0x7ACB, 0x957F, 0x671F, 0x6218, 0x7565, 0x5408, 0x4F5C] @ ascii '']''
     @ [0x000A] @ ascii ''            G --> K['' @ [0x96C6, 0x4E2D, 0x91C7, 0x8D2D]
     @ ascii ''+'' @ [0x62DB, 0x6807, 0x538B, 0x4EF7] @ ascii '']'' @ [0x000A]
     @ ascii ''            H --> L['' @ [0x591A, 0x6E90, 0x5BFB, 0x6E90] @ ascii ''+''
     @ [0x5E93, 0x5B58, 0x7F13, 0x51B2] @ ascii '']'' @ [0x000A]
     @ ascii ''            I --> M['' @ [0x7B80, 0x5316, 0x6D41, 0x7A0B] @ ascii ''+''
     @ [0x81EA, 0x52A8, 0x5316, 0x91C7, 0x8D2D] @ ascii '']'' @ [0x000A]
     @ ascii ''        '' @ [0x0060, 0x0060, 0x0060, 0x000A] @ ascii ''        ''"

(* procurement_analysis_platform.py line 180, 316 code points *)
definition flow_vmi :: str where
  "flow_vmi =
     [0x000A] @ ascii ''        '' @ [0x0060, 0x0060, 0x0060] @ ascii ''mermaid'' @ [0x000A]
     @ ascii ''        graph TD'' @ [0x000A] @ ascii ''            A[''
     @ [0x4F9B, 0x9700, 0x53CC, 0x65B9, 0x7B7E, 0x8BA2] @ ascii ''VMI'' @ [0x534F, 0x8BAE]
     @ ascii ''] --> B['' @ [0x5171, 0x4EAB, 0x9500, 0x552E] @ ascii ''/''
     @ [0x5E93, 0x5B58, 0x6570, 0x636E] @ ascii ''<br/>(''
     @ [0x5B9E, 0x65F6, 0x540C, 0x6B65] @ ascii '')]'' @ [0x000A]
     @ ascii ''            B --> C[''
     @ [0x4F9B, 0x5E94, 0x5546, 0x9884, 0x6D4B, 0x9700, 0x6C42] @ ascii ''<br/>(''
     @ [0x7ED3, 0x5408, 0x5386, 0x53F2, 0x6570, 0x636E] @ ascii '')]'' @ [0x000A]
     @ ascii ''            C --> D''
     @ [0x007B, 0x5E93, 0x5B58, 0x4F4E, 0x4E8E, 0x5B89, 0x5168, 0x7EBF] @ ascii ''?''
     @ [0x007D, 0x000A] @ ascii ''            D -->|'' @ [0x662F] @ ascii ''| E[''
     @ [0x81EA, 0x52A8, 0x8865, 0x8D27, 0x81F3, 0x76EE, 0x6807, 0x5E93, 0x5B58]
     @ ascii '']'' @ [0x000A] @ ascii ''            D -->|'' @ [0x5426] @ ascii ''| F[''
     @ [0x7EF4, 0x6301, 0x73B0, 0x6709, 0x5E93, 0x5B58] @ ascii '']'' @ [0x000A]
     @ ascii ''            E --> G['' @ [0x53CC, 0x65B9, 0x5B9A, 0x671F, 0x590D, 0x76D8]
     @ ascii ''<br/>('' @ [0x8C03, 0x6574, 0x9884, 0x6D4B, 0x6A21, 0x578B] @ ascii '')]''
     @ [0x000A] @ ascii ''            G --> B['' @ [0x5FAA, 0x73AF, 0x4F18, 0x5316]
     @ ascii '']'' @ [0x000A] @ ascii ''        '' @ [0x0060, 0x0060, 0x0060, 0x000A]
     @ ascii ''        ''"

(* procurement_analysis_platform.py line 198, 372 code points *)
definition flow_mrp :: str where
  "flow_mrp =
     [0x000A] @ ascii ''        '' @ [0x0060, 0x0060, 0x0060] @ ascii ''mermaid'' @ [0x000A]
     @ ascii ''        graph TD'' @ [0x000A] @ ascii ''            A[''
     @ [0x5236, 0x5B9A, 0x4E3B, 0x751F, 0x4EA7, 0x8BA1, 0x5212]
     @ ascii ''<br/>(MPS)] --> B['' @ [0x5206, 0x89E3, 0x7269, 0x6599, 0x6E05, 0x5355]
     @ ascii ''<br/>(BOM'' @ [0x5C42, 0x7EA7, 0x5C55, 0x5F00] @ ascii '')]'' @ [0x000A]
     @ ascii ''            B --> C['' @ [0x7EDF, 0x8BA1, 0x73B0, 0x6709, 0x5E93, 0x5B58]
     @ ascii ''<br/>('' @ [0x542B, 0x5728, 0x9014] @ ascii ''/'' @ [0x5728, 0x5236]
     @ ascii '')]'' @ [0x000A] @ ascii ''            C --> D[''
     @ [0x8BA1, 0x7B97, 0x51C0, 0x9700, 0x6C42] @ ascii ''<br/>(''
     @ [0x6BDB, 0x9700, 0x6C42] @ ascii ''-'' @ [0x5E93, 0x5B58] @ ascii ''-''
     @ [0x5728, 0x9014] @ ascii '')]'' @ [0x000A] @ ascii ''            D --> E''
     @ [0x007B, 0x51C0, 0x9700, 0x6C42] @ ascii ''>0?'' @ [0x007D, 0x000A]
     @ ascii ''            E -->|'' @ [0x662F] @ ascii ''| F[''
     @ [0x751F, 0x6210, 0x91C7, 0x8D2D, 0x8BA2, 0x5355] @ ascii ''<br/>(''
     @ [0x6309, 0x63D0, 0x524D, 0x671F] @ ascii '')]'' @ [0x000A]
     @ ascii ''            E -->|'' @ [0x5426] @ ascii ''| G[''
     @ [0x65E0, 0x9700, 0x91C7, 0x8D2D] @ ascii '']'' @ [0x000A]
     @ ascii ''            F --> H['' @ [0x8DDF, 0x8E2A, 0x8BA2, 0x5355, 0x4EA4, 0x4ED8]
     @ ascii ''<br/>('' @ [0x4E0E, 0x751F, 0x4EA7, 0x8BA1, 0x5212, 0x5339, 0x914D]
     @ ascii '')]'' @ [0x000A] @ ascii ''            H --> I[''
     @ [0x751F, 0x4EA7, 0x6267, 0x884C, 0x4E0E, 0x53CD, 0x9988] @ ascii '']'' @ [0x000A]
     @ ascii ''        '' @ [0x0060, 0x0060, 0x0060, 0x000A] @ ascii ''        ''"

(* procurement_analysis_platform.py line 217, 369 code points *)
definition flow_mro :: str where
  "flow_mro =
     [0x000A] @ ascii ''        '' @ [0x0060, 0x0060, 0x0060] @ ascii ''mermaid'' @ [0x000A]
     @ ascii ''        graph TD'' @ [0x000A] @ ascii ''            A['' @ [0x68B3, 0x7406]
     @ ascii ''MRO'' @ [0x7269, 0x6599, 0x6E05, 0x5355] @ ascii ''] --> B[''
     @ [0x5206, 0x7C7B, 0xFF1A] @ ascii ''<br/>1. ''
     @ [0x9AD8, 0x9891, 0x4F4E, 0x4EF7, 0x503C] @ ascii ''<br/>2. ''
     @ [0x4F4E, 0x9891, 0x9AD8, 0x4EF7, 0x503C] @ ascii ''<br/>3. ''
     @ [0x5E94, 0x6025, 0x5FC5, 0x9700] @ ascii '']'' @ [0x000A]
     @ ascii ''            B --> C['' @ [0x9AD8, 0x9891, 0x4F4E, 0x4EF7, 0x503C, 0xFF1A]
     @ ascii ''<br/>'' @ [0x957F, 0x671F, 0x534F, 0x8BAE] @ ascii ''+''
     @ [0x81EA, 0x52A8, 0x8865, 0x8D27] @ ascii '']'' @ [0x000A]
     @ ascii ''            B --> D['' @ [0x4F4E, 0x9891, 0x9AD8, 0x4EF7, 0x503C, 0xFF1A]
     @ ascii ''<br/>'' @ [0x6218, 0x7565, 0x5BFB, 0x6E90] @ ascii ''+''
     @ [0x6700, 0x5C0F, 0x5E93, 0x5B58] @ ascii '']'' @ [0x000A]
     @ ascii ''            B --> E['' @ [0x5E94, 0x6025, 0x5FC5, 0x9700, 0xFF1A]
     @ ascii ''<br/>'' @ [0x591A, 0x4F9B, 0x5E94, 0x5546] @ ascii ''+''
     @ [0x5B89, 0x5168, 0x5E93, 0x5B58] @ ascii '']'' @ [0x000A]
     @ ascii ''            C --> F['' @ [0x5B9A, 0x671F, 0x6D88, 0x8017, 0x5206, 0x6790]
     @ ascii ''<br/>('' @ [0x4F18, 0x5316, 0x8865, 0x8D27, 0x53C2, 0x6570] @ ascii '')]''
     @ [0x000A] @ ascii ''            D --> G[''
     @ [0x4F9B, 0x5E94, 0x5546, 0x54CD, 0x5E94, 0x901F, 0x5EA6, 0x8003, 0x6838]
     @ ascii '']'' @ [0x000A] @ ascii ''            E --> H[''
     @ [0x6A21, 0x62DF, 0x5E94, 0x6025, 0x573A, 0x666F] @ ascii ''<br/>(''
     @ [0x6D4B, 0x8BD5, 0x4F9B, 0x5E94, 0x80FD, 0x529B] @ ascii '')]'' @ [0x000A]
     @ ascii ''        '' @ [0x0060, 0x0060, 0x0060, 0x000A] @ ascii ''        ''"

(* procurement_analysis_platform.py line 235, 371 code points *)
definition flow_tco :: str where
  "flow_tco =
     [0x000A] @ ascii ''        '' @ [0x0060, 0x0060, 0x0060] @ ascii ''mermaid'' @ [0x000A]
     @ ascii ''        graph TD'' @ [0x000A] @ ascii ''            A[''
     @ [0x786E, 0x5B9A, 0x5206, 0x6790, 0x5BF9, 0x8C61] @ ascii ''<br/>(''
     @ [0x5355, 0x4E00, 0x7269, 0x54C1] @ ascii ''/'' @ [0x54C1, 0x7C7B]
     @ ascii '')] --> B['' @ [0x8BA1, 0x7B97, 0x91C7, 0x8D2D, 0x6210, 0x672C]
     @ ascii ''<br/>('' @ [0x4EF7, 0x683C] @ ascii ''+'' @ [0x8FD0, 0x8F93] @ ascii ''+''
     @ [0x7A0E, 0x8D39] @ ascii '')]'' @ [0x000A] @ ascii ''            B --> C[''
     @ [0x8BA1, 0x7B97, 0x4F7F, 0x7528, 0x6210, 0x672C] @ ascii ''<br/>(''
     @ [0x80FD, 0x8017] @ ascii ''+'' @ [0x7EF4, 0x62A4] @ ascii ''+'' @ [0x4EBA, 0x5DE5]
     @ ascii '')]'' @ [0x000A] @ ascii ''            C --> D[''
     @ [0x8BA1, 0x7B97, 0x5904, 0x7F6E, 0x6210, 0x672C] @ ascii ''<br/>(''
     @ [0x62A5, 0x5E9F] @ ascii ''+'' @ [0x73AF, 0x4FDD] @ ascii ''+'' @ [0x66FF, 0x4EE3]
     @ ascii '')]'' @ [0x000A] @ ascii ''            D --> E['' @ [0x6C47, 0x603B]
     @ ascii ''TCO=B+C+D]'' @ [0x000A] @ ascii ''            E --> F[''
     @ [0x8BC6, 0x522B, 0x6210, 0x672C, 0x5360, 0x6BD4, 0x6700, 0x9AD8, 0x9879]
     @ ascii ''<br/>(''
     @ [0x4F8B, 0x5982, 0xFF1A, 0x7EF4, 0x62A4, 0x6210, 0x672C, 0x8FC7, 0x9AD8]
     @ ascii '')]'' @ [0x000A] @ ascii ''            F --> G[''
     @ [0x9488, 0x5BF9, 0x6027, 0x4F18, 0x5316] @ ascii ''<br/>(''
     @ [0x4F8B, 0xFF1A, 0x6362, 0x9AD8, 0x6548, 0x578B, 0x53F7] @ ascii '')]'' @ [0x000A]
     @ ascii ''            G --> H['' @ [0x9A8C, 0x8BC1, 0x4F18, 0x5316, 0x6548, 0x679C]
     @ ascii ''<br/>(TCO'' @ [0x964D, 0x4F4E, 0x6BD4, 0x4F8B] @ ascii '')]'' @ [0x000A]
     @ ascii ''        '' @ [0x0060, 0x0060, 0x0060, 0x000A] @ ascii ''        ''"

(* procurement_analysis_platform.py line 253, 312 code points *)
definition flow_fallback :: str where
  "flow_fallback =
     [0x000A] @ ascii ''        '' @ [0x0060, 0x0060, 0x0060] @ ascii ''mermaid'' @ [0x000A]
     @ ascii ''        graph TD'' @ [0x000A] @ ascii ''            A[''
     @ [0x660E, 0x786E, 0x91C7, 0x8D2D, 0x76EE, 0x6807] @ ascii ''<br/>(''
     @ [0x964D, 0x672C] @ ascii ''/'' @ [0x4FDD, 0x4F9B] @ ascii ''/'' @ [0x521B, 0x65B0]
     @ ascii '')] --> B['' @ [0x5206, 0x6790, 0x7269, 0x54C1, 0x7279, 0x6027]
     @ ascii ''<br/>('' @ [0x4EF7, 0x503C] @ ascii ''/'' @ [0x98CE, 0x9669] @ ascii ''/''
     @ [0x590D, 0x6742, 0x5EA6] @ ascii '')]'' @ [0x000A] @ ascii ''            B --> C[''
     @ [0x8BC4, 0x4F30, 0x73B0, 0x6709, 0x4F9B, 0x5E94, 0x5546] @ ascii ''<br/>(''
     @ [0x80FD, 0x529B] @ ascii ''/'' @ [0x5408, 0x4F5C, 0x5386, 0x53F2] @ ascii '')]''
     @ [0x000A] @ ascii ''            C --> D[''
     @ [0x68B3, 0x7406, 0x5185, 0x5916, 0x90E8, 0x7EA6, 0x675F] @ ascii ''<br/>(''
     @ [0x9884, 0x7B97] @ ascii ''/'' @ [0x65F6, 0x95F4] @ ascii ''/'' @ [0x653F, 0x7B56]
     @ ascii '')]'' @ [0x000A] @ ascii ''            D --> E[''
     @ [0x5339, 0x914D, 0x5019, 0x9009, 0x65B9, 0x6CD5, 0x8BBA] @ ascii ''<br/>(''
     @ [0x5BF9, 0x6BD4, 0x4F18, 0x7F3A, 0x70B9] @ ascii '')]'' @ [0x000A]
     @ ascii ''            E --> F[''
     @ [0x5C0F, 0x8303, 0x56F4, 0x8BD5, 0x70B9, 0x9A8C, 0x8BC1] @ ascii '']'' @ [0x000A]
     @ ascii ''            F --> G['' @ [0x5168, 0x9762, 0x63A8, 0x5E7F] @ ascii ''+''
     @ [0x6301, 0x7EED, 0x8FED, 0x4EE3] @ ascii '']'' @ [0x000A] @ ascii ''        ''
     @ [0x0060, 0x0060, 0x0060, 0x000A] @ ascii ''        ''"
definition get_procurement_advice_with_flow ::
  "(str \<Rightarrow> str) \<Rightarrow> str \<Rightarrow> str \<Rightarrow> str \<times> str \<times> str" where
  \<comment> \<open>\<open>procurement_analysis_platform.py\<close> lines 140-264\<close>
  "get_procurement_advice_with_flow lower industry objective =
     (let industry_lower = strip (lower industry);
          objective_lower = strip (lower objective);
          is_manufacturing = any_in [zh_zhizao, zh_shengchan, ascii ''manufacture''] industry_lower;
          wants_portfolio = any_in [zh_fenlei, zh_zuhe, ascii ''portfolio''] objective_lower;
          wants_collaboration =
            any_in [zh_hezuo, zh_lianhe, zh_xiezuo, ascii ''collaboration''] objective_lower;
          wants_material_plan =
            any_in [zh_wuliao, zh_jihua, ascii ''mrp'', zh_shengchan_paiqi] objective_lower;
          wants_maintenance =
            any_in [zh_weihu, zh_weixiu, ascii ''mro'', zh_jianjie_wuliao] objective_lower;
          wants_cost_reduction =
            any_in [zh_chengben, zh_jieyue, zh_jiangdi, ascii ''control'', ascii ''reduce'']
              objective_lower
      in
        if wants_portfolio then (title_kraljic, desc_kraljic, flow_kraljic)
        else if wants_collaboration then (title_vmi, desc_vmi, flow_vmi)
        else if wants_material_plan \<and> is_manufacturing then (title_mrp, desc_mrp, flow_mrp)
        else if wants_maintenance then (title_mro, desc_mro, flow_mro)
        else if wants_cost_reduction then (title_tco, desc_tco, flow_tco)
        else (title_fallback, desc_fallback, flow_fallback))"

section \<open>The recommender of \<open>methodology-chosen.py\<close>\<close>

text \<open>
  The third variant has the name \<open>get_procurement_advice\<close> as well; here it carries
  the suffix \<open>_mc\<close>. It does not trim its inputs, has no cost rule, and its
  texts are its own.
\<close>

(* methodology-chosen.py line 31 *)
definition methodology_kraljic :: str where
  "methodology_kraljic =
     [0x5361, 0x62C9, 0x6770, 0x514B, 0x91C7, 0x8D2D, 0x7EC4, 0x5408, 0x6A21, 0x578B]
     @ ascii '' (Kraljic Portfolio Matrix)''"

(* methodology-chosen.py line 32 *)
definition reason_kraljic :: str where
  "reason_kraljic =
     [0x5361, 0x62C9, 0x6770, 0x514B, 0x91C7, 0x8D2D, 0x7EC4, 0x5408, 0x6A21, 0x578B]
     @ [0x901A, 0x8FC7, 0x5C06, 0x91C7, 0x8D2D, 0x7269, 0x54C1, 0x6309, 0x5229, 0x6DA6]
     @ [0x5F71, 0x54CD, 0x548C, 0x4F9B, 0x5E94, 0x98CE, 0x9669, 0x4E24, 0x4E2A, 0x7EF4]
     @ [0x5EA6, 0x8FDB, 0x884C, 0x5206, 0x7C7B, 0xFF0C, 0x5C06, 0x91C7, 0x8D2D, 0x9879]
     @ [0x76EE, 0x5206, 0x4E3A, 0x6218, 0x7565, 0x578B, 0x3001, 0x6760, 0x6746, 0x578B]
     @ [0x3001, 0x74F6, 0x9888, 0x578B, 0x548C, 0x5E38, 0x89C4, 0x578B, 0x56DB, 0x7C7B]
     @ [0xFF0C, 0x9488, 0x5BF9, 0x4E0D, 0x540C, 0x7C7B, 0x578B, 0x5236, 0x5B9A, 0x5DEE]
     @ [0x5F02, 0x5316, 0x91C7, 0x8D2D, 0x7B56, 0x7565, 0x3002, 0x8FD9, 0x4E00, 0x65B9]
     @ [0x6CD5, 0x8BBA, 0x7279, 0x522B, 0x9002, 0x5408, 0x5E2E, 0x52A9, 0x4F01, 0x4E1A]
     @ [0x4F18, 0x5316, 0x91C7, 0x8D2D, 0x8D44, 0x6E90, 0x5206, 0x914D, 0xFF0C, 0x5EFA]
     @ [0x7ACB, 0x9AD8, 0x6548, 0x7684, 0x4F9B, 0x5E94, 0x5546, 0x5173, 0x7CFB, 0x7BA1]
     @ [0x7406, 0x4F53, 0x7CFB, 0xFF0C, 0x964D, 0x4F4E, 0x6574, 0x4F53, 0x91C7, 0x8D2D]
     @ [0x6210, 0x672C, 0x548C, 0x98CE, 0x9669, 0x3002]"

(* methodology-chosen.py line 38 *)
definition methodology_vmi :: str where
  "methodology_vmi =
     ascii ''VMI'' @ [0x8054, 0x5408, 0x4EF7, 0x503C, 0x521B, 0x9020, 0x6A21, 0x578B]
     @ ascii '' (Vendor Managed Inventory)''"

(* methodology-chosen.py line 39 *)
definition reason_vmi :: str where
  "reason_vmi =
     ascii ''VMI''
     @ [0x8054, 0x5408, 0x4EF7, 0x503C, 0x521B, 0x9020, 0x6A21, 0x578B, 0x901A, 0x8FC7]
     @ [0x4F9B, 0x5E94, 0x5546, 0x53C2, 0x4E0E, 0x4E70, 0x65B9, 0x7684, 0x5E93, 0x5B58]
     @ [0x7BA1, 0x7406, 0x51B3, 0x7B56, 0xFF0C, 0x5B9E, 0x73B0, 0x4F9B, 0x9700, 0x53CC]
     @ [0x65B9, 0x7684, 0x4FE1, 0x606F, 0x5171, 0x4EAB, 0x4E0E, 0x534F, 0x540C, 0x5408]
     @ [0x4F5C, 0x3002, 0x8BE5, 0x65B9, 0x6CD5, 0x8BBA, 0x80FD, 0x591F, 0x51CF, 0x5C11]
     @ [0x5E93, 0x5B58, 0x79EF, 0x538B, 0x548C, 0x7F3A, 0x8D27, 0x98CE, 0x9669, 0xFF0C]
     @ [0x964D, 0x4F4E, 0x6574, 0x4F53, 0x4F9B, 0x5E94, 0x94FE, 0x6210, 0x672C, 0xFF0C]
     @ [0x63D0, 0x9AD8, 0x54CD, 0x5E94, 0x901F, 0x5EA6, 0x3002, 0x5C24, 0x5176, 0x9002]
     @ [0x5408, 0x9700, 0x8981, 0x4E0E, 0x6838, 0x5FC3, 0x4F9B, 0x5E94, 0x5546, 0x5EFA]
     @ [0x7ACB, 0x957F, 0x671F, 0x6218, 0x7565, 0x5408, 0x4F5C, 0x5173, 0x7CFB, 0x7684]
     @ [0x4F01, 0x4E1A, 0xFF0C, 0x901A, 0x8FC7, 0x4FE1, 0x606F, 0x5171, 0x4EAB, 0x548C]
     @ [0x534F, 0x540C, 0x8BA1, 0x5212, 0x521B, 0x9020, 0x53CC, 0x8D62, 0x5C40, 0x9762]
     @ [0x3002]"

(* methodology-chosen.py line 44 *)
definition methodology_mrp :: str where
  "methodology_mrp =
     ascii ''MRP'' @ [0x7269, 0x6599, 0x9700, 0x6C42, 0x8BA1, 0x5212, 0x65B9, 0x6CD5, 0x8BBA]
     @ ascii '' (Material Requirements Planning)''"

(* methodology-chosen.py line 45 *)
definition reason_mrp :: str where
  "reason_mrp =
     ascii ''MRP''
     @ [0x7269, 0x6599, 0x9700, 0x6C42, 0x8BA1, 0x5212, 0x65B9, 0x6CD5, 0x8BBA, 0x57FA]
     @ [0x4E8E, 0x751F, 0x4EA7, 0x8BA1, 0x5212, 0x548C, 0x7269, 0x6599, 0x6E05, 0x5355]
     @ [0xFF0C, 0x7CBE, 0x786E, 0x8BA1, 0x7B97, 0x751F, 0x4EA7, 0x6240, 0x9700, 0x7684]
     @ [0x539F, 0x6750, 0x6599, 0x548C, 0x96F6, 0x90E8, 0x4EF6, 0x6570, 0x91CF, 0x53CA]
     @ [0x65F6, 0x95F4, 0x3002, 0x8BE5, 0x65B9, 0x6CD5, 0x901A, 0x8FC7, 0x8BA1, 0x7B97]
     @ [0x673A, 0x7CFB, 0x7EDF, 0x5B9E, 0x73B0, 0x7269, 0x6599, 0x9700, 0x6C42, 0x7684]
     @ [0x7CBE, 0x51C6, 0x9884, 0x6D4B, 0x548C, 0x8BA1, 0x5212, 0xFF0C, 0x786E, 0x4FDD]
     @ [0x751F, 0x4EA7, 0x6240, 0x9700, 0x7269, 0x6599, 0x6309, 0x65F6, 0x6309, 0x91CF]
     @ [0x4F9B, 0x5E94, 0xFF0C, 0x540C, 0x65F6, 0x6700, 0x5C0F, 0x5316, 0x5E93, 0x5B58]
     @ [0x6210, 0x672C, 0x3002, 0x7279, 0x522B, 0x9002, 0x5408, 0x5236, 0x9020, 0x578B]
     @ [0x4F01, 0x4E1A, 0x7684, 0x751F, 0x4EA7, 0x7269, 0x6599, 0x91C7, 0x8D2D, 0x7BA1]
     @ [0x7406, 0xFF0C, 0x63D0, 0x9AD8, 0x751F, 0x4EA7, 0x6548, 0x7387, 0x548C, 0x7269]
     @ [0x6599, 0x5468, 0x8F6C, 0x7387, 0x3002]"

(* methodology-chosen.py line 50 *)
definition methodology_mro :: str where
  "methodology_mro =
     ascii ''MRO'' @ [0x5206, 0x7C7B, 0x91C7, 0x8D2D, 0x7BA1, 0x7406, 0x65B9, 0x6CD5, 0x8BBA]
     @ ascii '' (Maintenance, Repair, and Operations)''"

(* methodology-chosen.py line 51 *)
definition reason_mro :: str where
  "reason_mro =
     ascii ''MRO''
     @ [0x5206, 0x7C7B, 0x91C7, 0x8D2D, 0x7BA1, 0x7406, 0x65B9, 0x6CD5, 0x8BBA, 0x4E13]
     @ [0x6CE8, 0x4E8E, 0x975E, 0x751F, 0x4EA7, 0x6027, 0x7269, 0x6599, 0x7684, 0x91C7]
     @ [0x8D2D, 0x4E0E, 0x7BA1, 0x7406, 0xFF0C, 0x901A, 0x8FC7, 0x5BF9, 0x7EF4, 0x62A4]
     @ [0x3001, 0x7EF4, 0x4FEE, 0x548C, 0x8FD0, 0x8425, 0x6240, 0x9700, 0x7269, 0x54C1]
     @ [0x8FDB, 0x884C, 0x5206, 0x7C7B, 0xFF0C, 0x5236, 0x5B9A, 0x9488, 0x5BF9, 0x6027]
     @ [0x7684, 0x91C7, 0x8D2D, 0x7B56, 0x7565, 0x548C, 0x5E93, 0x5B58, 0x7BA1, 0x7406]
     @ [0x65B9, 0x6848, 0x3002, 0x8BE5, 0x65B9, 0x6CD5, 0x80FD, 0x591F, 0x63D0, 0x9AD8]
     @ [0x95F4, 0x63A5, 0x7269, 0x6599, 0x7684, 0x91C7, 0x8D2D, 0x6548, 0x7387, 0xFF0C]
     @ [0x964D, 0x4F4E, 0x5E93, 0x5B58, 0x6210, 0x672C, 0xFF0C, 0x786E, 0x4FDD, 0x4F01]
     @ [0x4E1A, 0x8FD0, 0x8425, 0x7684, 0x8FDE, 0x7EED, 0x6027, 0xFF0C, 0x7279, 0x522B]
     @ [0x9002, 0x5408, 0x9700, 0x8981, 0x5927, 0x91CF, 0x7EF4, 0x62A4, 0x548C, 0x8FD0]
     @ [0x8425, 0x7269, 0x6599, 0x7684, 0x884C, 0x4E1A, 0x3002]"

(* methodology-chosen.py line 57 *)
definition methodology_fallback :: str where
  "methodology_fallback =
     [0x91C7, 0x8D2D, 0x65B9, 0x6CD5, 0x8BBA, 0x7EFC, 0x5408, 0x8BC4, 0x4F30, 0x6CD5]"

(* methodology-chosen.py line 58 *)
definition reason_fallback :: str where
  "reason_fallback =
     [0x57FA, 0x4E8E, 0x60A8, 0x63D0, 0x4F9B, 0x7684, 0x4FE1, 0x606F, 0xFF0C, 0x6211]
     @ [0x4EEC, 0x5EFA, 0x8BAE, 0x5148, 0x5BF9, 0x91C7, 0x8D2D, 0x9700, 0x6C42, 0x8FDB]
     @ [0x884C, 0x5168, 0x9762, 0x8BC4, 0x4F30, 0xFF0C, 0x5305, 0x62EC, 0xFF1A, 0x000A]
     @ ascii ''1. ''
     @ [0x5206, 0x6790, 0x91C7, 0x8D2D, 0x7269, 0x54C1, 0x7684, 0x7279, 0x6027, 0x548C]
     @ [0x91CD, 0x8981, 0x6027, 0x000A] @ ascii ''2. ''
     @ [0x8BC4, 0x4F30, 0x4E0E, 0x4F9B, 0x5E94, 0x5546, 0x7684, 0x5408, 0x4F5C, 0x6A21]
     @ [0x5F0F, 0x9700, 0x6C42, 0x000A] @ ascii ''3. ''
     @ [0x660E, 0x786E, 0x5E93, 0x5B58, 0x7BA1, 0x7406, 0x76EE, 0x6807, 0x000A, 0x6839]
     @ [0x636E, 0x8BC4, 0x4F30, 0x7ED3, 0x679C, 0xFF0C, 0x53EF, 0x9009, 0x62E9, 0x5361]
     @ [0x62C9, 0x6770, 0x514B, 0x91C7, 0x8D2D, 0x7EC4, 0x5408, 0x6A21, 0x578B, 0x8FDB]
     @ [0x884C, 0x5206, 0x7C7B, 0x7BA1, 0x7406, 0xFF0C] @ ascii ''VMI''
     @ [0x6A21, 0x578B, 0x4F18, 0x5316, 0x4F9B, 0x5E94, 0x5546, 0x534F, 0x4F5C, 0xFF0C]
     @ [0x000A] @ ascii ''MRP''
     @ [0x65B9, 0x6CD5, 0x8FDB, 0x884C, 0x751F, 0x4EA7, 0x7269, 0x6599, 0x8BA1, 0x5212]
     @ [0xFF0C, 0x6216] @ ascii ''MRO''
     @ [0x5206, 0x7C7B, 0x7BA1, 0x7406, 0x95F4, 0x63A5, 0x7269, 0x6599, 0xFF0C, 0x4E5F]
     @ [0x53EF, 0x7EC4, 0x5408, 0x4F7F, 0x7528, 0x591A, 0x79CD, 0x65B9, 0x6CD5, 0x3002]"
definition get_procurement_advice_mc :: "(str \<Rightarrow> str) \<Rightarrow> str \<Rightarrow> str \<Rightarrow> str \<times> str" where
  \<comment> \<open>\<open>methodology-chosen.py\<close> lines 1-65\<close>
  "get_procurement_advice_mc lower industry objective =
     (let industry_lower = lower industry;
          objective_lower = lower objective;
          is_manufacturing =
            any_in [zh_zhizao, zh_shengchan, ascii ''manufacture'', ascii ''production'']
              industry_lower;
          is_retail =
            any_in [zh_lingshou, zh_lingshou, ascii ''retail'', ascii ''distribution'']
              industry_lower;
          is_construction =
            any_in [zh_jianzhu, ascii ''construction'', ascii ''building''] industry_lower;
          is_service = any_in [zh_fuwu, ascii ''service''] industry_lower;
          wants_portfolio =
            any_in [zh_fenlei, zh_zuhe, ascii ''portfolio'', ascii ''categorize''] objective_lower;
          wants_collaboration =
            any_in [zh_hezuo, zh_lianhe, zh_xiezuo, ascii ''collaboration'', ascii ''joint'']
              objective_lower;
          wants_inventory =
            any_in [zh_kucun, zh_kucun_guanli, ascii ''inventory'', ascii ''stock'']
              objective_lower;
          wants_material = any_in [zh_wuliao, zh_cailiao, ascii ''material''] objective_lower;
          wants_maintenance =
            any_in [zh_weihu, zh_weixiu, ascii ''maintenance'', ascii ''repair''] objective_lower
      in
        if wants_portfolio \<or> (wants_material \<and> wants_inventory)
        then (methodology_kraljic, reason_kraljic)
        else if wants_collaboration \<or>
                any_in [zh_gongyingshang_guanli, zh_lianhe_kucun, ascii ''vmi''] objective_lower
        then (methodology_vmi, reason_vmi)
        else if wants_material \<and> wants_inventory \<and> is_manufacturing
        then (methodology_mrp, reason_mrp)
        else if wants_maintenance \<or>
                any_in [zh_jianjie_wuliao, zh_weihu_yongpin, ascii ''mro''] objective_lower
        then (methodology_mro, reason_mro)
        else (methodology_fallback, reason_fallback))"

section \<open>Text extraction and the file analysis\<close>

























text \<open>The input of the end-to-end example of the specification.\<close>

definition example_text :: str where
  "example_text =
     [0x6211, 0x4EEC, 0x662F, 0x4E00, 0x5BB6, 0x5236, 0x9020, 0x4F01, 0x4E1A, 0xFF0C]
     @ [0x9700, 0x8981, 0x505A, 0x7269, 0x6599, 0x8BA1, 0x5212, 0x548C, 0x751F, 0x4EA7]
     @ [0x6392, 0x671F]"

section \<open>Facts about the string functions\<close>

lemma str_in_sublist: "str_in t s \<longleftrightarrow> sublist t s"
  by (induction s) (auto simp: sublist_Cons_right)

lemma any_in_iff: "any_in words s \<longleftrightarrow> (\<exists>w\<in>set words. str_in w s)"
  by (simp add: any_in_def list_ex_iff)

text \<open>
  Dropping leading characters that satisfy \<open>P\<close> loses no occurrence of a word whose
  first character does not satisfy \<open>P\<close>.
\<close>

lemma sublist_dropWhile_iff:
  assumes "t \<noteq> []" and "\<not> P (hd t)"
  shows "sublist t (dropWhile P s) \<longleftrightarrow> sublist t s"
proof (induction s)
  case Nil
  show ?case by simp
next
  case (Cons a s)
  show ?case
  proof (cases "P a")
    case True
    from assms obtain x t' where t: "t = x # t'" and x: "\<not> P x"
      by (cases t) auto
    with True have "\<not> prefix t (a # s)" by auto
    then have "sublist t (a # s) \<longleftrightarrow> sublist t s"
      by (simp add: sublist_Cons_right)
    with True Cons.IH show ?thesis by simp
  next
    case False
    then show ?thesis by simp
  qed
qed

lemma str_in_lstrip:
  "t \<noteq> [] \<Longrightarrow> \<not> isspace (hd t) \<Longrightarrow> str_in t (lstrip s) \<longleftrightarrow> str_in t s"
  by (simp add: str_in_sublist lstrip_def sublist_dropWhile_iff)

lemma str_in_rstrip:
  assumes "t \<noteq> []" and "\<not> isspace (last t)"
  shows "str_in t (rstrip s) \<longleftrightarrow> str_in t s"
proof -
  have "sublist t (rev (dropWhile isspace (rev s))) \<longleftrightarrow>
        sublist (rev t) (dropWhile isspace (rev s))"
    by (simp add: sublist_rev_right)
  also have "\<dots> \<longleftrightarrow> sublist (rev t) (rev s)"
    using assms by (intro sublist_dropWhile_iff) (simp_all add: hd_rev)
  also have "\<dots> \<longleftrightarrow> sublist t s" by simp
  finally show ?thesis by (simp add: str_in_sublist rstrip_def)
qed

lemma str_in_strip:
  "t \<noteq> [] \<Longrightarrow> \<not> isspace (hd t) \<Longrightarrow> \<not> isspace (last t) \<Longrightarrow>
   str_in t (strip s) \<longleftrightarrow> str_in t s"
  by (simp add: strip_def str_in_lstrip str_in_rstrip)

text \<open>
  Trimming changes no membership test whose words neither start nor end with
  whitespace. Every word of the recommenders' lists is of that kind.
\<close>

lemma any_in_strip:
  assumes "\<forall>t\<in>set words. t \<noteq> [] \<and> \<not> isspace (hd t) \<and> \<not> isspace (last t)"
  shows "any_in words (strip s) \<longleftrightarrow> any_in words s"
  using assms by (auto simp: any_in_iff str_in_strip)

lemma any_in_subset: "set ws \<subseteq> set ws' \<Longrightarrow> any_in ws s \<Longrightarrow> any_in ws' s"
  by (auto simp: any_in_iff)

lemmas word_defs =
  zh_zhizao_def zh_shengchan_def zh_lingshou_def zh_xiaoshou_def zh_jianzhu_def zh_gongcheng_def
  zh_yiliao_def zh_jiaoyu_def zh_jinrong_def zh_fenlei_youhua_def zh_gongyingshang_xiezuo_def
  zh_wuliao_jihua_def zh_weihu_weixiu_def zh_chengben_kongzhi_def zh_fenlei_def zh_zuhe_def
  zh_hezuo_def zh_lianhe_def zh_xiezuo_def zh_gongyingshang_def zh_wuliao_def zh_jihua_def
  zh_shengchan_paiqi_def zh_weihu_def zh_weixiu_def zh_jianjie_wuliao_def zh_chengben_def
  zh_jieyue_def zh_jiangdi_def zh_fuwu_def zh_kucun_def zh_kucun_guanli_def zh_cailiao_def
  zh_gongyingshang_guanli_def zh_lianhe_kucun_def zh_weihu_yongpin_def

lemma strip_manufacturing:
  "any_in [zh_zhizao, zh_shengchan, ascii ''manufacture''] (strip s) =
   any_in [zh_zhizao, zh_shengchan, ascii ''manufacture''] s"
  by (rule any_in_strip) (simp add: word_defs ascii_def isspace_def)

lemma strip_portfolio:
  "any_in [zh_fenlei, zh_zuhe, ascii ''portfolio'', ascii ''categorize''] (strip s) =
   any_in [zh_fenlei, zh_zuhe, ascii ''portfolio'', ascii ''categorize''] s"
  by (rule any_in_strip) (simp add: word_defs ascii_def isspace_def)

lemma strip_portfolio_with_flow:
  "any_in [zh_fenlei, zh_zuhe, ascii ''portfolio''] (strip s) =
   any_in [zh_fenlei, zh_zuhe, ascii ''portfolio''] s"
  by (rule any_in_strip) (simp add: word_defs ascii_def isspace_def)

lemma strip_collaboration:
  "any_in [zh_hezuo, zh_lianhe, zh_xiezuo, ascii ''collaboration''] (strip s) =
   any_in [zh_hezuo, zh_lianhe, zh_xiezuo, ascii ''collaboration''] s"
  by (rule any_in_strip) (simp add: word_defs ascii_def isspace_def)

lemma strip_material_plan:
  "any_in [zh_wuliao_jihua, ascii ''mrp'', zh_shengchan_paiqi] (strip s) =
   any_in [zh_wuliao_jihua, ascii ''mrp'', zh_shengchan_paiqi] s"
  by (rule any_in_strip) (simp add: word_defs ascii_def isspace_def)

lemma strip_material_plan_with_flow:
  "any_in [zh_wuliao, zh_jihua, ascii ''mrp'', zh_shengchan_paiqi] (strip s) =
   any_in [zh_wuliao, zh_jihua, ascii ''mrp'', zh_shengchan_paiqi] s"
  by (rule any_in_strip) (simp add: word_defs ascii_def isspace_def)

lemma strip_maintenance:
  "any_in [zh_weihu, zh_weixiu, ascii ''mro'', zh_jianjie_wuliao] (strip s) =
   any_in [zh_weihu, zh_weixiu, ascii ''mro'', zh_jianjie_wuliao] s"
  by (rule any_in_strip) (simp add: word_defs ascii_def isspace_def)

lemma strip_cost_reduction:
  "any_in [zh_chengben, zh_jieyue, zh_jiangdi, ascii ''control'', ascii ''reduce''] (strip s) =
   any_in [zh_chengben, zh_jieyue, zh_jiangdi, ascii ''control'', ascii ''reduce''] s"
  by (rule any_in_strip) (simp add: word_defs ascii_def isspace_def)

lemmas strip_words =
  strip_manufacturing strip_portfolio strip_portfolio_with_flow strip_collaboration
  strip_material_plan strip_material_plan_with_flow strip_maintenance strip_cost_reduction

text \<open>
  With these, each recommender is a decision on the lowercased inputs alone: the
  \<open>strip\<close> of the source changes none of its tests.
\<close>

lemma get_procurement_advice_lower:
  "get_procurement_advice lower industry objective =
     (if any_in [zh_fenlei, zh_zuhe, ascii ''portfolio'', ascii ''categorize''] (lower objective)
      then (title_kraljic, desc_kraljic)
      else if any_in [zh_hezuo, zh_lianhe, zh_xiezuo, ascii ''collaboration''] (lower objective)
      then (title_vmi, desc_vmi)
      else if any_in [zh_wuliao_jihua, ascii ''mrp'', zh_shengchan_paiqi] (lower objective) \<and>
              any_in [zh_zhizao, zh_shengchan, ascii ''manufacture''] (lower industry)
      then (title_mrp, desc_mrp)
      else if any_in [zh_weihu, zh_weixiu, ascii ''mro'', zh_jianjie_wuliao] (lower objective)
      then (title_mro, desc_mro)
      else if any_in [zh_chengben, zh_jieyue, zh_jiangdi, ascii ''control'', ascii ''reduce'']
                (lower objective)
      then (title_tco, desc_tco)
      else (title_fallback, desc_fallback))"
  by (simp only: get_procurement_advice_def Let_def strip_words)

lemma get_procurement_advice_with_flow_lower:
  "get_procurement_advice_with_flow lower industry objective =
     (if any_in [zh_fenlei, zh_zuhe, ascii ''portfolio''] (lower objective)
      then (title_kraljic, desc_kraljic, flow_kraljic)
      else if any_in [zh_hezuo, zh_lianhe, zh_xiezuo, ascii ''collaboration''] (lower objective)
      then (title_vmi, desc_vmi, flow_vmi)
      else if any_in [zh_wuliao, zh_jihua, ascii ''mrp'', zh_shengchan_paiqi] (lower objective) \<and>
              any_in [zh_zhizao, zh_shengchan, ascii ''manufacture''] (lower industry)
      then (title_mrp, desc_mrp, flow_mrp)
      else if any_in [zh_weihu, zh_weixiu, ascii ''mro'', zh_jianjie_wuliao] (lower objective)
      then (title_mro, desc_mro, flow_mro)
      else if any_in [zh_chengben, zh_jieyue, zh_jiangdi, ascii ''control'', ascii ''reduce'']
                (lower objective)
      then (title_tco, desc_tco, flow_tco)
      else (title_fallback, desc_fallback, flow_fallback))"
  by (simp only: get_procurement_advice_with_flow_def Let_def strip_words)

lemma titles_distinct:
  "distinct [title_kraljic, title_vmi, title_mrp, title_mro, title_tco, title_fallback]"
  by (simp add: title_kraljic_def title_vmi_def title_mrp_def title_mro_def title_tco_def
      title_fallback_def ascii_def)

lemma title_neqs:
  "title_mro \<noteq> title_mrp" "title_tco \<noteq> title_mrp" "title_fallback \<noteq> title_mrp"
  "title_kraljic \<noteq> title_mrp" "title_vmi \<noteq> title_mrp" "title_vmi \<noteq> title_kraljic"
  using titles_distinct by auto

lemma methodologies_distinct:
  "distinct [methodology_kraljic, methodology_vmi, methodology_mrp, methodology_mro,
     methodology_fallback]"
  by (simp add: methodology_kraljic_def methodology_vmi_def methodology_mrp_def
      methodology_mro_def methodology_fallback_def ascii_def)

lemma title_mrp_neq_methodologies:
  "title_mrp \<noteq> methodology_mrp" "title_mrp \<noteq> methodology_fallback"
  by (simp_all add: title_mrp_def methodology_mrp_def methodology_fallback_def ascii_def)

section \<open>Priority of the portfolio rule\<close>

text \<open>
  In \<open>intergration.py\<close> an objective whose lowercased form contains one of the
  four portfolio words gets the Kraljic record, whatever else it contains; with a
  collaboration word present the VMI record is therefore not returned.
\<close>

lemma portfolio_first:
  assumes "p \<in> set [zh_fenlei, zh_zuhe, ascii ''portfolio'', ascii ''categorize'']"
    and "str_in p (lower objective)"
  shows "get_procurement_advice lower industry objective = (title_kraljic, desc_kraljic)"
    and "get_procurement_advice lower industry objective \<noteq> (title_vmi, desc_vmi)"
proof -
  have "any_in [zh_fenlei, zh_zuhe, ascii ''portfolio'', ascii ''categorize''] (lower objective)"
    using assms unfolding any_in_iff by blast
  then show "get_procurement_advice lower industry objective = (title_kraljic, desc_kraljic)"
    by (simp add: get_procurement_advice_lower)
  then show "get_procurement_advice lower industry objective \<noteq> (title_vmi, desc_vmi)"
    using titles_distinct by auto
qed

text \<open>
  In \<open>procurement_analysis_platform.py\<close> the same holds for the three portfolio
  words its list has.
\<close>

lemma portfolio_first_with_flow:
  assumes "p \<in> set [zh_fenlei, zh_zuhe, ascii ''portfolio'']"
    and "str_in p (lower objective)"
  shows "get_procurement_advice_with_flow lower industry objective =
    (title_kraljic, desc_kraljic, flow_kraljic)"
proof -
  have "any_in [zh_fenlei, zh_zuhe, ascii ''portfolio''] (lower objective)"
    using assms unfolding any_in_iff by blast
  then show ?thesis
    by (simp add: get_procurement_advice_with_flow_lower)
qed

text \<open>
  Claim C1. The portfolio rule comes first: an objective with a portfolio word and
  a collaboration word gets the Kraljic record, never the VMI record. The objective
  \<open>categorize collaboration\<close> has the portfolio word \<open>categorize\<close> and the
  collaboration word \<open>collaboration\<close>. \<open>get_procurement_advice\<close> of
  \<open>intergration.py\<close> answers with the Kraljic record;
  \<open>get_procurement_advice_with_flow\<close>, whose portfolio list lacks
  \<open>categorize\<close>, answers with the VMI record.
\<close>

theorem categorize_collaboration_with_flow:
  "str_in (ascii ''categorize'') (lower_ascii (ascii ''categorize collaboration'')) \<and>
   str_in (ascii ''collaboration'') (lower_ascii (ascii ''categorize collaboration'')) \<and>
   get_procurement_advice lower_ascii [] (ascii ''categorize collaboration'') =
     (title_kraljic, desc_kraljic) \<and>
   get_procurement_advice_with_flow lower_ascii [] (ascii ''categorize collaboration'') =
     (title_vmi, desc_vmi, flow_vmi) \<and>
   title_vmi \<noteq> title_kraljic"
proof -
  have a: "str_in (ascii ''categorize'') (lower_ascii (ascii ''categorize collaboration''))"
    by (simp add: ascii_def lower_ascii_def)
  have b: "str_in (ascii ''collaboration'') (lower_ascii (ascii ''categorize collaboration''))"
    by (simp add: ascii_def lower_ascii_def)
  have c: "get_procurement_advice lower_ascii [] (ascii ''categorize collaboration'') =
     (title_kraljic, desc_kraljic)"
    by (simp add: get_procurement_advice_lower any_in_def ascii_def word_defs lower_ascii_def)
  have d: "get_procurement_advice_with_flow lower_ascii [] (ascii ''categorize collaboration'') =
     (title_vmi, desc_vmi, flow_vmi)"
    by (simp add: get_procurement_advice_with_flow_lower any_in_def ascii_def word_defs
        lower_ascii_def)
  have e: "title_vmi \<noteq> title_kraljic"
    by (rule title_neqs)
  from a b c d e show ?thesis by simp
qed

section \<open>The MRP rule needs a manufacturing industry\<close>

text \<open>
  Claim C2. Take an objective whose lowercased form contains a material-planning
  word and no portfolio or collaboration word, and an industry whose lowercased
  form contains no manufacturing word (the empty industry is one, as lowercasing
  the empty string gives the empty string). Then both application variants skip
  the MRP rule: the record returned is the MRO, the TCO or the fallback record, and
  its title is not the MRP title.
\<close>

theorem mrp_rule_manufacturing_gated:
  assumes "m \<in> set [zh_wuliao_jihua, ascii ''mrp'', zh_shengchan_paiqi]"
    and "str_in m (lower objective)"
    and "\<not> any_in [zh_fenlei, zh_zuhe, ascii ''portfolio'', ascii ''categorize''] (lower objective)"
    and "\<not> any_in [zh_hezuo, zh_lianhe, zh_xiezuo, ascii ''collaboration''] (lower objective)"
    and "\<not> any_in [zh_zhizao, zh_shengchan, ascii ''manufacture''] (lower industry)"
  shows "get_procurement_advice lower industry objective \<in>
           {(title_mro, desc_mro), (title_tco, desc_tco), (title_fallback, desc_fallback)} \<and>
         fst (get_procurement_advice lower industry objective) \<noteq> title_mrp \<and>
         get_procurement_advice_with_flow lower industry objective \<in>
           {(title_mro, desc_mro, flow_mro), (title_tco, desc_tco, flow_tco),
            (title_fallback, desc_fallback, flow_fallback)} \<and>
         fst (get_procurement_advice_with_flow lower industry objective) \<noteq> title_mrp"
proof -
  have "\<not> any_in [zh_fenlei, zh_zuhe, ascii ''portfolio''] (lower objective)"
    using assms(3) any_in_subset [of "[zh_fenlei, zh_zuhe, ascii ''portfolio'']"
      "[zh_fenlei, zh_zuhe, ascii ''portfolio'', ascii ''categorize'']" "lower objective"]
    by auto
  with assms(3-5) show ?thesis
    by (simp add: get_procurement_advice_lower get_procurement_advice_with_flow_lower
        title_neqs)
qed

theorem mrp_rule_manufacturing_gated_witness:
  "ascii ''mrp'' \<in> set [zh_wuliao_jihua, ascii ''mrp'', zh_shengchan_paiqi] \<and>
   str_in (ascii ''mrp'') (lower_ascii (ascii ''MRP rollout'')) \<and>
   lower_ascii [] = [] \<and>
   get_procurement_advice lower_ascii [] (ascii ''MRP rollout'') =
     (title_fallback, desc_fallback) \<and>
   fst (get_procurement_advice lower_ascii [] (ascii ''MRP rollout'')) \<noteq> title_mrp \<and>
   fst (get_procurement_advice_with_flow lower_ascii [] (ascii ''MRP rollout'')) \<noteq> title_mrp"
proof -
  have e: "lower_ascii [] = []"
    by (simp add: lower_ascii_def)
  have 1: "ascii ''mrp'' \<in> set [zh_wuliao_jihua, ascii ''mrp'', zh_shengchan_paiqi]"
    by simp
  have 2: "str_in (ascii ''mrp'') (lower_ascii (ascii ''MRP rollout''))"
    by (simp add: ascii_def lower_ascii_def)
  have 3: "\<not> any_in [zh_fenlei, zh_zuhe, ascii ''portfolio'', ascii ''categorize'']
      (lower_ascii (ascii ''MRP rollout''))"
    by (simp add: any_in_def ascii_def word_defs lower_ascii_def)
  have 4: "\<not> any_in [zh_hezuo, zh_lianhe, zh_xiezuo, ascii ''collaboration'']
      (lower_ascii (ascii ''MRP rollout''))"
    by (simp add: any_in_def ascii_def word_defs lower_ascii_def)
  have 5: "\<not> any_in [zh_zhizao, zh_shengchan, ascii ''manufacture''] (lower_ascii [])"
    by (simp add: any_in_def ascii_def word_defs lower_ascii_def)
  have 6: "get_procurement_advice lower_ascii [] (ascii ''MRP rollout'') =
     (title_fallback, desc_fallback)"
    by (simp add: get_procurement_advice_lower any_in_def ascii_def word_defs lower_ascii_def)
  from mrp_rule_manufacturing_gated [where lower = lower_ascii and industry = "[]"
      and objective = "ascii ''MRP rollout''" and m = "ascii ''mrp''", OF 1 2 3 4 5] 1 2 e 6
  show ?thesis
    by simp
qed

section \<open>First match wins in the classifier\<close>

lemma first_match_at:
  assumes "k < length d" and "any_in (snd (d ! k)) s"
    and "\<forall>j<k. \<not> any_in (snd (d ! j)) s"
  shows "first_match d s = fst (d ! k)"
  using assms
proof (induction d arbitrary: k)
  case Nil
  then show ?case by simp
next
  case (Cons a d)
  obtain label kws where a: "a = (label, kws)"
    by (cases a)
  show ?case
  proof (cases k)
    case 0
    with Cons.prems a show ?thesis by simp
  next
    case (Suc k')
    from Cons.prems(3) Suc have first: "\<not> any_in kws s"
      using a by auto
    from Cons.prems(3) Suc have earlier: "\<forall>j<k'. \<not> any_in (snd (d ! j)) s"
      by auto
    from Cons.prems(1,2) Suc have here: "k' < length d" "any_in (snd (d ! k')) s"
      by simp_all
    from here earlier have "first_match d s = fst (d ! k')"
      by (rule Cons.IH)
    with first a Suc show ?thesis by simp
  qed
qed

lemma first_match_label: "first_match d s \<in> set ([] # map fst d)"
  by (induction d s rule: first_match.induct) auto

lemma keywords_nonempty:
  "(label, keywords) \<in> set industry_keywords \<union> set objective_keywords \<Longrightarrow> \<not> any_in keywords []"
  by (auto simp: industry_keywords_def objective_keywords_def any_in_def word_defs ascii_def)

lemma nth_keywords_nonempty:
  assumes "d = industry_keywords \<or> d = objective_keywords" and "k < length d"
  shows "\<not> any_in (snd (d ! k)) []"
proof -
  from assms have "d ! k \<in> set industry_keywords \<union> set objective_keywords"
    using nth_mem [of k d] by auto
  then show ?thesis
    using keywords_nonempty [of "fst (d ! k)" "snd (d ! k)"] by simp
qed

text \<open>
  Claim C3. Let \<open>lower\<close> send the empty string to the empty string, as
  \<open>str.lower\<close> does. If the lowercased text contains a keyword of the \<open>k\<close>-th
  entry of a dictionary and no keyword of an earlier entry, the classifier returns
  the label of that entry for that label space. For every input each of the two
  results is one string: the empty one or one label of its dictionary.
\<close>

theorem classify_first_match_wins:
  assumes "lower [] = []"
  shows "(k < length industry_keywords \<and>
            any_in (snd (industry_keywords ! k)) (lower text) \<and>
            (\<forall>j<k. \<not> any_in (snd (industry_keywords ! j)) (lower text)) \<longrightarrow>
          fst (extract_keywords lower text) = fst (industry_keywords ! k)) \<and>
         (n < length objective_keywords \<and>
            any_in (snd (objective_keywords ! n)) (lower text) \<and>
            (\<forall>j<n. \<not> any_in (snd (objective_keywords ! j)) (lower text)) \<longrightarrow>
          snd (extract_keywords lower text) = fst (objective_keywords ! n)) \<and>
         fst (extract_keywords lower text) \<in> set ([] # map fst industry_keywords) \<and>
         snd (extract_keywords lower text) \<in> set ([] # map fst objective_keywords)"
proof (intro conjI impI)
  assume h: "k < length industry_keywords \<and>
    any_in (snd (industry_keywords ! k)) (lower text) \<and>
    (\<forall>j<k. \<not> any_in (snd (industry_keywords ! j)) (lower text))"
  with assms have "text \<noteq> []"
    using nth_keywords_nonempty [of industry_keywords k] by auto
  moreover from h have "first_match industry_keywords (lower text) = fst (industry_keywords ! k)"
    by (intro first_match_at) simp_all
  ultimately show "fst (extract_keywords lower text) = fst (industry_keywords ! k)"
    by (simp add: extract_keywords_def)
next
  assume h: "n < length objective_keywords \<and>
    any_in (snd (objective_keywords ! n)) (lower text) \<and>
    (\<forall>j<n. \<not> any_in (snd (objective_keywords ! j)) (lower text))"
  with assms have "text \<noteq> []"
    using nth_keywords_nonempty [of objective_keywords n] by auto
  moreover from h have "first_match objective_keywords (lower text) = fst (objective_keywords ! n)"
    by (intro first_match_at) simp_all
  ultimately show "snd (extract_keywords lower text) = fst (objective_keywords ! n)"
    by (simp add: extract_keywords_def)
next
  show "fst (extract_keywords lower text) \<in> set ([] # map fst industry_keywords)"
    using first_match_label [of industry_keywords "lower text"]
    by (simp add: extract_keywords_def Let_def)
next
  show "snd (extract_keywords lower text) \<in> set ([] # map fst objective_keywords)"
    using first_match_label [of objective_keywords "lower text"]
    by (simp add: extract_keywords_def Let_def)
qed

text \<open>
  The text \<open>Retail school budget control\<close> has keywords of two industries (retail,
  education) and of one objective; the classifier returns the retail label, which is
  declared first of the two, and the cost label.
\<close>

theorem classify_first_match_wins_witness:
  "lower_ascii [] = [] \<and>
   any_in (snd (industry_keywords ! 1)) (lower_ascii (ascii ''Retail school budget control'')) \<and>
   any_in (snd (industry_keywords ! 4)) (lower_ascii (ascii ''Retail school budget control'')) \<and>
   extract_keywords lower_ascii (ascii ''Retail school budget control'') =
     (zh_lingshou, zh_chengben_kongzhi)"
proof -
  let ?t = "ascii ''Retail school budget control''"
  have e: "lower_ascii [] = []"
    by (simp add: lower_ascii_def)
  have l: "lower_ascii ?t = ascii ''retail school budget control''"
    by (simp add: lower_ascii_def ascii_def)
  have i0: "\<not> any_in (snd (industry_keywords ! 0)) (lower_ascii ?t)"
    unfolding l by (simp add: industry_keywords_def any_in_def word_defs ascii_def)
  have i1: "any_in (snd (industry_keywords ! 1)) (lower_ascii ?t)"
    unfolding l by (simp add: industry_keywords_def any_in_def word_defs ascii_def)
  have i4: "any_in (snd (industry_keywords ! 4)) (lower_ascii ?t)"
    unfolding l by (simp add: industry_keywords_def any_in_def word_defs ascii_def)
  have o: "\<not> any_in (snd (objective_keywords ! 0)) (lower_ascii ?t)"
    "\<not> any_in (snd (objective_keywords ! 1)) (lower_ascii ?t)"
    "\<not> any_in (snd (objective_keywords ! 2)) (lower_ascii ?t)"
    "\<not> any_in (snd (objective_keywords ! 3)) (lower_ascii ?t)"
    "any_in (snd (objective_keywords ! 4)) (lower_ascii ?t)"
    unfolding l by (simp_all add: objective_keywords_def any_in_def word_defs ascii_def)
  have before1: "\<forall>j<1. \<not> any_in (snd (industry_keywords ! j)) (lower_ascii ?t)"
    using i0 by simp
  have before4: "\<forall>j<4. \<not> any_in (snd (objective_keywords ! j)) (lower_ascii ?t)"
  proof (intro allI impI)
    fix j :: nat
    assume "j < 4"
    then have "j = 0 \<or> j = 1 \<or> j = 2 \<or> j = 3" by arith
    with o show "\<not> any_in (snd (objective_keywords ! j)) (lower_ascii ?t)" by auto
  qed
  have len: "1 < length industry_keywords" "4 < length objective_keywords"
    by (simp_all add: industry_keywords_def objective_keywords_def)
  have labels: "fst (industry_keywords ! 1) = zh_lingshou"
    "fst (objective_keywords ! 4) = zh_chengben_kongzhi"
    by (simp_all add: industry_keywords_def objective_keywords_def)
  from classify_first_match_wins [of lower_ascii 1 "?t" 4, OF e] len i1 o(5) before1 before4 labels
  have "fst (extract_keywords lower_ascii ?t) = zh_lingshou"
    and "snd (extract_keywords lower_ascii ?t) = zh_chengben_kongzhi"
    by simp_all
  then have "extract_keywords lower_ascii ?t = (zh_lingshou, zh_chengben_kongzhi)"
    by (simp add: prod_eq_iff)
  with e i1 i4 show ?thesis by simp
qed

section \<open>The end-to-end example\<close>

text \<open>
  Claim C4, as amended. Let \<open>lower\<close> leave the example text and the two labels
  unchanged (they have no cased character). The classifier maps the example text
  to the labels for manufacturing and material planning. On that pair the two
  application variants return the MRP record, whose title is \<open>title_mrp\<close>; the
  variant of \<open>methodology-chosen.py\<close> returns its fallback record.
\<close>

theorem end_to_end_example:
  assumes "lower example_text = example_text"
    and "lower zh_zhizao = zh_zhizao"
    and "lower zh_wuliao_jihua = zh_wuliao_jihua"
  shows "extract_keywords lower example_text = (zh_zhizao, zh_wuliao_jihua) \<and>
         get_procurement_advice lower zh_zhizao zh_wuliao_jihua = (title_mrp, desc_mrp) \<and>
         get_procurement_advice_with_flow lower zh_zhizao zh_wuliao_jihua =
           (title_mrp, desc_mrp, flow_mrp) \<and>
         get_procurement_advice_mc lower zh_zhizao zh_wuliao_jihua =
           (methodology_fallback, reason_fallback)"
proof -
  have "extract_keywords lower example_text = (zh_zhizao, zh_wuliao_jihua)"
    unfolding extract_keywords_def assms(1)
    by (simp add: example_text_def industry_keywords_def objective_keywords_def any_in_def
        word_defs ascii_def)
  moreover have "get_procurement_advice lower zh_zhizao zh_wuliao_jihua = (title_mrp, desc_mrp)"
    unfolding get_procurement_advice_lower assms(2,3)
    by (simp add: any_in_def word_defs ascii_def)
  moreover have "get_procurement_advice_with_flow lower zh_zhizao zh_wuliao_jihua =
      (title_mrp, desc_mrp, flow_mrp)"
    unfolding get_procurement_advice_with_flow_lower assms(2,3)
    by (simp add: any_in_def word_defs ascii_def)
  moreover have "get_procurement_advice_mc lower zh_zhizao zh_wuliao_jihua =
      (methodology_fallback, reason_fallback)"
    unfolding get_procurement_advice_mc_def Let_def assms(2,3)
    by (simp add: any_in_def word_defs ascii_def)
  ultimately show ?thesis by simp
qed

theorem end_to_end_example_witness:
  "lower_ascii example_text = example_text \<and>
   extract_keywords lower_ascii example_text = (zh_zhizao, zh_wuliao_jihua) \<and>
   fst (get_procurement_advice lower_ascii zh_zhizao zh_wuliao_jihua) = title_mrp \<and>
   fst (get_procurement_advice_with_flow lower_ascii zh_zhizao zh_wuliao_jihua) = title_mrp"
proof -
  have 1: "lower_ascii example_text = example_text"
    by (simp add: lower_ascii_def example_text_def)
  have 2: "lower_ascii zh_zhizao = zh_zhizao"
    by (simp add: lower_ascii_def word_defs)
  have 3: "lower_ascii zh_wuliao_jihua = zh_wuliao_jihua"
    by (simp add: lower_ascii_def word_defs)
  from end_to_end_example [where lower = lower_ascii, OF 1 2 3] 1 show ?thesis
    by simp
qed

text \<open>
  The claim as first stated, read on \<open>methodology-chosen.py\<close>, fails: on the pair
  of the example that variant does not return a record titled \<open>title_mrp\<close>, nor
  its own MRP record.
\<close>

theorem end_to_end_example_mc_counterexample:
  "lower_ascii zh_zhizao = zh_zhizao \<and>
   lower_ascii zh_wuliao_jihua = zh_wuliao_jihua \<and>
   get_procurement_advice_mc lower_ascii zh_zhizao zh_wuliao_jihua =
     (methodology_fallback, reason_fallback) \<and>
   fst (get_procurement_advice_mc lower_ascii zh_zhizao zh_wuliao_jihua) \<noteq> title_mrp \<and>
   fst (get_procurement_advice_mc lower_ascii zh_zhizao zh_wuliao_jihua) \<noteq> methodology_mrp"
proof -
  have 2: "lower_ascii zh_zhizao = zh_zhizao"
    by (simp add: lower_ascii_def word_defs)
  have 3: "lower_ascii zh_wuliao_jihua = zh_wuliao_jihua"
    by (simp add: lower_ascii_def word_defs)
  have r: "get_procurement_advice_mc lower_ascii zh_zhizao zh_wuliao_jihua =
      (methodology_fallback, reason_fallback)"
    unfolding get_procurement_advice_mc_def Let_def 2 3
    by (simp add: any_in_def word_defs ascii_def)
  from 2 3 r title_mrp_neq_methodologies methodologies_distinct show ?thesis
    by auto
qed

section \<open>The recommender always answers\<close>

lemma records_nonempty:
  "title_kraljic \<noteq> []" "title_vmi \<noteq> []" "title_mrp \<noteq> []" "title_mro \<noteq> []"
  "title_tco \<noteq> []" "title_fallback \<noteq> []"
  "desc_kraljic \<noteq> []" "desc_vmi \<noteq> []" "desc_mrp \<noteq> []" "desc_mro \<noteq> []"
  "desc_tco \<noteq> []" "desc_fallback \<noteq> []"
  by (simp_all add: title_kraljic_def title_vmi_def title_mrp_def title_mro_def title_tco_def
      title_fallback_def desc_kraljic_def desc_vmi_def desc_mrp_def desc_mro_def desc_tco_def
      desc_fallback_def ascii_def)

lemma no_word_in_empty:
  "\<not> any_in [zh_fenlei, zh_zuhe, ascii ''portfolio'', ascii ''categorize''] []"
  "\<not> any_in [zh_fenlei, zh_zuhe, ascii ''portfolio''] []"
  "\<not> any_in [zh_hezuo, zh_lianhe, zh_xiezuo, ascii ''collaboration''] []"
  "\<not> any_in [zh_zhizao, zh_shengchan, ascii ''manufacture''] []"
  "\<not> any_in [zh_weihu, zh_weixiu, ascii ''mro'', zh_jianjie_wuliao] []"
  "\<not> any_in [zh_chengben, zh_jieyue, zh_jiangdi, ascii ''control'', ascii ''reduce''] []"
  "\<not> any_in [zh_wuliao_jihua, ascii ''mrp'', zh_shengchan_paiqi] []"
  "\<not> any_in [zh_wuliao, zh_jihua, ascii ''mrp'', zh_shengchan_paiqi] []"
  by (simp_all add: any_in_def word_defs ascii_def)

text \<open>
  Claim C5. For every pair of strings \<open>get_procurement_advice\<close> returns one of
  its six records, each with a non-empty title and a non-empty rationale; no input
  leads to an error. On the pair of empty strings it returns the fallback record,
  whose title is \<open>title_fallback\<close> (lowercasing the empty string gives the empty
  string). The flow variant answers from its six records in the same way.
\<close>

theorem recommend_total:
  "get_procurement_advice lower industry objective \<in>
     {(title_kraljic, desc_kraljic), (title_vmi, desc_vmi), (title_mrp, desc_mrp),
      (title_mro, desc_mro), (title_tco, desc_tco), (title_fallback, desc_fallback)} \<and>
   fst (get_procurement_advice lower industry objective) \<noteq> [] \<and>
   snd (get_procurement_advice lower industry objective) \<noteq> [] \<and>
   get_procurement_advice_with_flow lower industry objective \<in>
     {(title_kraljic, desc_kraljic, flow_kraljic), (title_vmi, desc_vmi, flow_vmi),
      (title_mrp, desc_mrp, flow_mrp), (title_mro, desc_mro, flow_mro),
      (title_tco, desc_tco, flow_tco), (title_fallback, desc_fallback, flow_fallback)} \<and>
   (lower [] = [] \<longrightarrow>
      get_procurement_advice lower [] [] = (title_fallback, desc_fallback) \<and>
      get_procurement_advice_with_flow lower [] [] =
        (title_fallback, desc_fallback, flow_fallback))"
proof (intro conjI impI)
  show "get_procurement_advice lower industry objective \<in>
     {(title_kraljic, desc_kraljic), (title_vmi, desc_vmi), (title_mrp, desc_mrp),
      (title_mro, desc_mro), (title_tco, desc_tco), (title_fallback, desc_fallback)}"
    by (simp add: get_procurement_advice_lower)
  then show "fst (get_procurement_advice lower industry objective) \<noteq> []"
    and "snd (get_procurement_advice lower industry objective) \<noteq> []"
    using records_nonempty by auto
  show "get_procurement_advice_with_flow lower industry objective \<in>
     {(title_kraljic, desc_kraljic, flow_kraljic), (title_vmi, desc_vmi, flow_vmi),
      (title_mrp, desc_mrp, flow_mrp), (title_mro, desc_mro, flow_mro),
      (title_tco, desc_tco, flow_tco), (title_fallback, desc_fallback, flow_fallback)}"
    by (simp add: get_procurement_advice_with_flow_lower)
next
  assume "lower [] = []"
  then show "get_procurement_advice lower [] [] = (title_fallback, desc_fallback)"
    by (simp add: get_procurement_advice_lower no_word_in_empty)
next
  assume "lower [] = []"
  then show "get_procurement_advice_with_flow lower [] [] =
      (title_fallback, desc_fallback, flow_fallback)"
    by (simp add: get_procurement_advice_with_flow_lower no_word_in_empty)
qed

theorem recommend_total_witness:
  "lower_ascii [] = [] \<and>
   get_procurement_advice lower_ascii [] [] = (title_fallback, desc_fallback) \<and>
   get_procurement_advice_with_flow lower_ascii [] [] =
     (title_fallback, desc_fallback, flow_fallback) \<and>
   fst (get_procurement_advice lower_ascii [] []) \<noteq> []"
proof -
  have e: "lower_ascii [] = []"
    by (simp add: lower_ascii_def)
  with recommend_total [of lower_ascii "[]" "[]"] show ?thesis
    by blast
qed

section \<open>The cost rule\<close>

text \<open>
  Claim C6, as amended. In each of the two application variants an objective whose
  lowercased form contains a cost word gets the TCO record when none of that
  variant's earlier rules matches. The variant of \<open>methodology-chosen.py\<close> has no
  cost rule: an input that matches none of its own four rules gets its fallback
  record, with a cost word or without. Its rules are its own: the Kraljic rule also
  fires on a material word with an inventory word, the VMI rule on five more words,
  the MRO rule on four more.
\<close>

theorem cost_rule:
  "(any_in [zh_chengben, zh_jieyue, zh_jiangdi, ascii ''control'', ascii ''reduce'']
      (lower objective) \<and>
    \<not> any_in [zh_fenlei, zh_zuhe, ascii ''portfolio'', ascii ''categorize''] (lower objective) \<and>
    \<not> any_in [zh_hezuo, zh_lianhe, zh_xiezuo, ascii ''collaboration''] (lower objective) \<and>
    \<not> (any_in [zh_wuliao_jihua, ascii ''mrp'', zh_shengchan_paiqi] (lower objective) \<and>
       any_in [zh_zhizao, zh_shengchan, ascii ''manufacture''] (lower industry)) \<and>
    \<not> any_in [zh_weihu, zh_weixiu, ascii ''mro'', zh_jianjie_wuliao] (lower objective) \<longrightarrow>
    get_procurement_advice lower industry objective = (title_tco, desc_tco)) \<and>
   (any_in [zh_chengben, zh_jieyue, zh_jiangdi, ascii ''control'', ascii ''reduce'']
      (lower objective) \<and>
    \<not> any_in [zh_fenlei, zh_zuhe, ascii ''portfolio''] (lower objective) \<and>
    \<not> any_in [zh_hezuo, zh_lianhe, zh_xiezuo, ascii ''collaboration''] (lower objective) \<and>
    \<not> (any_in [zh_wuliao, zh_jihua, ascii ''mrp'', zh_shengchan_paiqi] (lower objective) \<and>
       any_in [zh_zhizao, zh_shengchan, ascii ''manufacture''] (lower industry)) \<and>
    \<not> any_in [zh_weihu, zh_weixiu, ascii ''mro'', zh_jianjie_wuliao] (lower objective) \<longrightarrow>
    get_procurement_advice_with_flow lower industry objective =
      (title_tco, desc_tco, flow_tco)) \<and>
   (\<not> any_in [zh_fenlei, zh_zuhe, ascii ''portfolio'', ascii ''categorize''] (lower objective) \<and>
    \<not> (any_in [zh_wuliao, zh_cailiao, ascii ''material''] (lower objective) \<and>
       any_in [zh_kucun, zh_kucun_guanli, ascii ''inventory'', ascii ''stock'']
         (lower objective)) \<and>
    \<not> any_in [zh_hezuo, zh_lianhe, zh_xiezuo, ascii ''collaboration'', ascii ''joint'']
        (lower objective) \<and>
    \<not> any_in [zh_gongyingshang_guanli, zh_lianhe_kucun, ascii ''vmi''] (lower objective) \<and>
    \<not> any_in [zh_weihu, zh_weixiu, ascii ''maintenance'', ascii ''repair''] (lower objective) \<and>
    \<not> any_in [zh_jianjie_wuliao, zh_weihu_yongpin, ascii ''mro''] (lower objective) \<longrightarrow>
    get_procurement_advice_mc lower industry objective =
      (methodology_fallback, reason_fallback))"
proof (intro conjI impI)
  assume "any_in [zh_chengben, zh_jieyue, zh_jiangdi, ascii ''control'', ascii ''reduce'']
      (lower objective) \<and>
    \<not> any_in [zh_fenlei, zh_zuhe, ascii ''portfolio'', ascii ''categorize''] (lower objective) \<and>
    \<not> any_in [zh_hezuo, zh_lianhe, zh_xiezuo, ascii ''collaboration''] (lower objective) \<and>
    \<not> (any_in [zh_wuliao_jihua, ascii ''mrp'', zh_shengchan_paiqi] (lower objective) \<and>
       any_in [zh_zhizao, zh_shengchan, ascii ''manufacture''] (lower industry)) \<and>
    \<not> any_in [zh_weihu, zh_weixiu, ascii ''mro'', zh_jianjie_wuliao] (lower objective)"
  then show "get_procurement_advice lower industry objective = (title_tco, desc_tco)"
    unfolding get_procurement_advice_lower by auto
next
  assume "any_in [zh_chengben, zh_jieyue, zh_jiangdi, ascii ''control'', ascii ''reduce'']
      (lower objective) \<and>
    \<not> any_in [zh_fenlei, zh_zuhe, ascii ''portfolio''] (lower objective) \<and>
    \<not> any_in [zh_hezuo, zh_lianhe, zh_xiezuo, ascii ''collaboration''] (lower objective) \<and>
    \<not> (any_in [zh_wuliao, zh_jihua, ascii ''mrp'', zh_shengchan_paiqi] (lower objective) \<and>
       any_in [zh_zhizao, zh_shengchan, ascii ''manufacture''] (lower industry)) \<and>
    \<not> any_in [zh_weihu, zh_weixiu, ascii ''mro'', zh_jianjie_wuliao] (lower objective)"
  then show "get_procurement_advice_with_flow lower industry objective =
      (title_tco, desc_tco, flow_tco)"
    unfolding get_procurement_advice_with_flow_lower by auto
next
  assume "\<not> any_in [zh_fenlei, zh_zuhe, ascii ''portfolio'', ascii ''categorize'']
      (lower objective) \<and>
    \<not> (any_in [zh_wuliao, zh_cailiao, ascii ''material''] (lower objective) \<and>
       any_in [zh_kucun, zh_kucun_guanli, ascii ''inventory'', ascii ''stock'']
         (lower objective)) \<and>
    \<not> any_in [zh_hezuo, zh_lianhe, zh_xiezuo, ascii ''collaboration'', ascii ''joint'']
        (lower objective) \<and>
    \<not> any_in [zh_gongyingshang_guanli, zh_lianhe_kucun, ascii ''vmi''] (lower objective) \<and>
    \<not> any_in [zh_weihu, zh_weixiu, ascii ''maintenance'', ascii ''repair''] (lower objective) \<and>
    \<not> any_in [zh_jianjie_wuliao, zh_weihu_yongpin, ascii ''mro''] (lower objective)"
  then show "get_procurement_advice_mc lower industry objective =
      (methodology_fallback, reason_fallback)"
    unfolding get_procurement_advice_mc_def Let_def by auto
qed

text \<open>
  The objective \<open>Reduce spend\<close> with no industry: TCO in both application
  variants, the fallback in the third.
\<close>

theorem cost_rule_witness:
  "any_in [zh_chengben, zh_jieyue, zh_jiangdi, ascii ''control'', ascii ''reduce'']
     (lower_ascii (ascii ''Reduce spend'')) \<and>
   get_procurement_advice lower_ascii [] (ascii ''Reduce spend'') = (title_tco, desc_tco) \<and>
   get_procurement_advice_with_flow lower_ascii [] (ascii ''Reduce spend'') =
     (title_tco, desc_tco, flow_tco) \<and>
   get_procurement_advice_mc lower_ascii [] (ascii ''Reduce spend'') =
     (methodology_fallback, reason_fallback)"
proof -
  have l: "lower_ascii (ascii ''Reduce spend'') = ascii ''reduce spend''"
    by (simp add: lower_ascii_def ascii_def)
  have e: "lower_ascii [] = []"
    by (simp add: lower_ascii_def)
  have c: "any_in [zh_chengben, zh_jieyue, zh_jiangdi, ascii ''control'', ascii ''reduce'']
     (lower_ascii (ascii ''Reduce spend''))"
    unfolding l by (simp add: any_in_def word_defs ascii_def)
  have n: "\<not> any_in [zh_fenlei, zh_zuhe, ascii ''portfolio'', ascii ''categorize'']
       (lower_ascii (ascii ''Reduce spend''))"
    "\<not> any_in [zh_fenlei, zh_zuhe, ascii ''portfolio''] (lower_ascii (ascii ''Reduce spend''))"
    "\<not> any_in [zh_hezuo, zh_lianhe, zh_xiezuo, ascii ''collaboration'']
       (lower_ascii (ascii ''Reduce spend''))"
    "\<not> any_in [zh_zhizao, zh_shengchan, ascii ''manufacture''] (lower_ascii [])"
    "\<not> any_in [zh_weihu, zh_weixiu, ascii ''mro'', zh_jianjie_wuliao]
       (lower_ascii (ascii ''Reduce spend''))"
    "\<not> any_in [zh_wuliao, zh_cailiao, ascii ''material''] (lower_ascii (ascii ''Reduce spend''))"
    "\<not> any_in [zh_hezuo, zh_lianhe, zh_xiezuo, ascii ''collaboration'', ascii ''joint'']
       (lower_ascii (ascii ''Reduce spend''))"
    "\<not> any_in [zh_gongyingshang_guanli, zh_lianhe_kucun, ascii ''vmi'']
       (lower_ascii (ascii ''Reduce spend''))"
    "\<not> any_in [zh_weihu, zh_weixiu, ascii ''maintenance'', ascii ''repair'']
       (lower_ascii (ascii ''Reduce spend''))"
    "\<not> any_in [zh_jianjie_wuliao, zh_weihu_yongpin, ascii ''mro'']
       (lower_ascii (ascii ''Reduce spend''))"
    unfolding l e by (simp_all add: any_in_def word_defs ascii_def)
  from cost_rule [of lower_ascii "ascii ''Reduce spend''" "[]"] c n show ?thesis
    by simp
qed

text \<open>
  The claim as first stated gives the third variant the fallback on the same
  inputs. The objective \<open>reduce repair\<close> has a cost word and matches none of the
  earlier rules of \<open>intergration.py\<close>, which returns the TCO record; in
  \<open>methodology-chosen.py\<close> the word \<open>repair\<close> is a maintenance word, and the
  MRO record is returned, not the fallback.
\<close>

theorem cost_rule_mc_counterexample:
  "any_in [zh_chengben, zh_jieyue, zh_jiangdi, ascii ''control'', ascii ''reduce'']
     (lower_ascii (ascii ''reduce repair'')) \<and>
   \<not> any_in [zh_fenlei, zh_zuhe, ascii ''portfolio'', ascii ''categorize'']
     (lower_ascii (ascii ''reduce repair'')) \<and>
   \<not> any_in [zh_hezuo, zh_lianhe, zh_xiezuo, ascii ''collaboration'']
     (lower_ascii (ascii ''reduce repair'')) \<and>
   \<not> any_in [zh_wuliao, zh_jihua, ascii ''mrp'', zh_shengchan_paiqi]
     (lower_ascii (ascii ''reduce repair'')) \<and>
   \<not> any_in [zh_weihu, zh_weixiu, ascii ''mro'', zh_jianjie_wuliao]
     (lower_ascii (ascii ''reduce repair'')) \<and>
   get_procurement_advice lower_ascii [] (ascii ''reduce repair'') = (title_tco, desc_tco) \<and>
   get_procurement_advice_with_flow lower_ascii [] (ascii ''reduce repair'') =
     (title_tco, desc_tco, flow_tco) \<and>
   get_procurement_advice_mc lower_ascii [] (ascii ''reduce repair'') =
     (methodology_mro, reason_mro) \<and>
   methodology_mro \<noteq> methodology_fallback"
proof -
  have l: "lower_ascii (ascii ''reduce repair'') = ascii ''reduce repair''"
    by (simp add: lower_ascii_def ascii_def)
  have e: "lower_ascii [] = []"
    by (simp add: lower_ascii_def)
  have 1: "any_in [zh_chengben, zh_jieyue, zh_jiangdi, ascii ''control'', ascii ''reduce'']
     (lower_ascii (ascii ''reduce repair''))"
    unfolding l by (simp add: any_in_def word_defs ascii_def)
  have 2: "\<not> any_in [zh_fenlei, zh_zuhe, ascii ''portfolio'', ascii ''categorize'']
     (lower_ascii (ascii ''reduce repair''))"
    unfolding l by (simp add: any_in_def word_defs ascii_def)
  have 3: "\<not> any_in [zh_hezuo, zh_lianhe, zh_xiezuo, ascii ''collaboration'']
     (lower_ascii (ascii ''reduce repair''))"
    unfolding l by (simp add: any_in_def word_defs ascii_def)
  have 4: "\<not> any_in [zh_wuliao, zh_jihua, ascii ''mrp'', zh_shengchan_paiqi]
     (lower_ascii (ascii ''reduce repair''))"
    unfolding l by (simp add: any_in_def word_defs ascii_def)
  have 5: "\<not> any_in [zh_weihu, zh_weixiu, ascii ''mro'', zh_jianjie_wuliao]
     (lower_ascii (ascii ''reduce repair''))"
    unfolding l by (simp add: any_in_def word_defs ascii_def)
  have 6: "get_procurement_advice lower_ascii [] (ascii ''reduce repair'') =
      (title_tco, desc_tco)"
    unfolding get_procurement_advice_lower l e by (simp add: any_in_def word_defs ascii_def)
  have 7: "get_procurement_advice_with_flow lower_ascii [] (ascii ''reduce repair'') =
      (title_tco, desc_tco, flow_tco)"
    unfolding get_procurement_advice_with_flow_lower l e
    by (simp add: any_in_def word_defs ascii_def)
  have 8: "get_procurement_advice_mc lower_ascii [] (ascii ''reduce repair'') =
      (methodology_mro, reason_mro)"
    unfolding get_procurement_advice_mc_def Let_def l e
    by (simp add: any_in_def word_defs ascii_def)
  have 9: "methodology_mro \<noteq> methodology_fallback"
    using methodologies_distinct by simp
  from 1 2 3 4 5 6 7 8 9 show ?thesis by simp
qed

section \<open>The empty text\<close>

text \<open>
  Claim C7. On the empty string the classifier returns the pair of empty strings.
  The result does not depend on \<open>lower\<close>: the test on the text comes first, and
  neither the lowercased text nor a dictionary is consulted.
\<close>

theorem classify_empty: "extract_keywords lower [] = ([], [])"
  by (simp add: extract_keywords_def)

section \<open>The result depends on the inputs alone\<close>



section \<open>Extraction failures\<close>






section \<open>The dead MRP rule of \<open>methodology-chosen.py\<close>\<close>

lemma title_mrp_not_in_methodologies:
  "\<not> str_in title_mrp methodology_kraljic" "\<not> str_in title_mrp methodology_vmi"
  "\<not> str_in title_mrp methodology_mro" "\<not> str_in title_mrp methodology_fallback"
  by (simp_all add: title_mrp_def methodology_kraljic_def methodology_vmi_def
      methodology_mro_def methodology_fallback_def ascii_def)

text \<open>
  Claim C10. \<open>get_procurement_advice\<close> of \<open>methodology-chosen.py\<close> never returns
  its MRP record: whatever the inputs, the result is one of the other four records,
  and the title returned is not the MRP title and does not contain the text
  \<open>title_mrp\<close>. The guard of the MRP rule asks for a material word and an inventory
  word, and those two already make the first rule fire.
\<close>

theorem mrp_rule_unreachable_mc:
  "get_procurement_advice_mc lower industry objective \<in>
     {(methodology_kraljic, reason_kraljic), (methodology_vmi, reason_vmi),
      (methodology_mro, reason_mro), (methodology_fallback, reason_fallback)} \<and>
   fst (get_procurement_advice_mc lower industry objective) \<noteq> methodology_mrp \<and>
   \<not> str_in title_mrp (fst (get_procurement_advice_mc lower industry objective))"
proof -
  have cases: "get_procurement_advice_mc lower industry objective \<in>
     {(methodology_kraljic, reason_kraljic), (methodology_vmi, reason_vmi),
      (methodology_mro, reason_mro), (methodology_fallback, reason_fallback)}"
    unfolding get_procurement_advice_mc_def Let_def by auto
  moreover from cases
  have "fst (get_procurement_advice_mc lower industry objective) \<noteq> methodology_mrp"
    using methodologies_distinct by auto
  moreover from cases
  have "\<not> str_in title_mrp (fst (get_procurement_advice_mc lower industry objective))"
    using title_mrp_not_in_methodologies by auto
  ultimately show ?thesis by simp
qed

end
